theory Spec2Isabelle
  imports Main "HOL-Library.Word" "HOL-Library.Char_ord" "HOL-Library.List_Lexorder"
    "HOL-Library.Product_Lexorder"
begin

section \<open>Data model\<close>

text \<open>
  The entities of \<^verbatim>\<open>domain/entity/models.go\<close>.  A \<^verbatim>\<open>uuid.UUID\<close> is only ever compared
  for equality, so it is a natural number with \<^verbatim>\<open>uuid.Nil\<close> as \<open>0\<close>.  Go's \<^verbatim>\<open>int64\<close> is a
  64-bit word: \<open>+\<close>, \<open>-\<close> and unary minus wrap around, and comparisons are the signed ones
  (\<open><s\<close>, \<open>\<le>s\<close>).  A \<^verbatim>\<open>time.Time\<close> is the instant it denotes, counted in nanoseconds
  from the Unix epoch; the zero \<^verbatim>\<open>time.Time\<close> is the first instant of January 1 of year 1,
  and \<^verbatim>\<open>Time.Unix\<close> is the count of whole seconds.  The bookkeeping columns
  \<^verbatim>\<open>CreatedAt\<close> and \<^verbatim>\<open>UpdatedAt\<close> of \<^verbatim>\<open>Base\<close> are read by no function modelled here and
  are left out.  \<^verbatim>\<open>DeletedAt\<close> is rendered by the table a row is in: see the database below.
  Field names carry the struct's name as a prefix, because record fields share one name space.
\<close>

type_synonym uuid = nat
type_synonym int64 = "64 word"
type_synonym time = int

definition uuid_Nil :: uuid where
  "uuid_Nil = 0"

definition zeroTime :: time where
  "zeroTime = - 62135596800000000000"

definition IsZero :: "time \<Rightarrow> bool" where
  "IsZero t = (t = zeroTime)"

definition Unix :: "time \<Rightarrow> int" where
  "Unix t = t div 1000000000"

record User =
  User_ID :: uuid
  User_Email :: string
  User_Name :: string

record Card =
  Card_ID :: uuid
  Card_UserID :: uuid
  Card_CardName :: string
  Card_MaskedPan :: string
  Card_Balance :: int64
  Card_CreditLimit :: int64
  Card_CurrencyCode :: int
  Card_IsManual :: bool
  Card_Type :: string
  Card_MonobankAccountID :: string

record Transaction =
  Tx_ID :: uuid
  Tx_CardID :: uuid
  Tx_UserID :: uuid
  Tx_CategoryID :: "uuid option"
  Tx_Amount :: int64
  Tx_OperationAmount :: int64
  Tx_CurrencyCode :: int
  Tx_OperationCurrencyCode :: int
  Tx_Type :: string
  Tx_Description :: string
  Tx_MCC :: int
  Tx_CommissionRate :: int64
  Tx_CashbackAmount :: int64
  Tx_BalanceAfter :: int64
  Tx_Hold :: bool
  Tx_TransactionDate :: time
  Tx_MonobankID :: string
  Tx_Comment :: string

record Category =
  Cat_ID :: uuid
  Cat_Name :: string
  Cat_ParentID :: "uuid option"
  Cat_UserID :: uuid
  Cat_Type :: string

record MonobankIntegration =
  Int_ID :: uuid
  Int_UserID :: uuid
  Int_ClientID :: string
  Int_Token :: string
  Int_WebhookURL :: string
  Int_Permissions :: string

text \<open>The provider's statement item, \<^verbatim>\<open>monobankTransaction\<close> of the Monobank service.\<close>

record monobankTransaction =
  mono_ID :: string
  mono_Time :: int64
  mono_Description :: string
  mono_MCC :: int
  mono_OriginalMCC :: int
  mono_Hold :: bool
  mono_Amount :: int64
  mono_OperationAmount :: int64
  mono_CurrencyCode :: int
  mono_CommissionRate :: int64
  mono_CashbackAmount :: int64
  mono_Balance :: int64
  mono_Comment :: string
  mono_ReceiptID :: string
  mono_CounterEdrpou :: string
  mono_CounterIban :: string
  mono_CounterName :: string

section \<open>Conversion of a statement item\<close>

text \<open>\<^verbatim>\<open>func abs(n int64) int64\<close>: the negation is the wrapping one of \<^verbatim>\<open>int64\<close>.\<close>

definition abs_int64 :: "int64 \<Rightarrow> int64" where
  "abs_int64 n = (if n <s 0 then - n else n)"

text \<open>\<^verbatim>\<open>time.Unix(sec, 0)\<close> for a signed 64-bit second count.\<close>

definition time_Unix :: "int64 \<Rightarrow> time" where
  "time_Unix sec = sint sec * 1000000000"

text \<open>
  \<^verbatim>\<open>MonobankService.convertMonobankTransaction\<close>: the type starts as \<^verbatim>\<open>"expense"\<close> and
  becomes \<^verbatim>\<open>"income"\<close> only for a strictly positive amount.  The fields the composite
  literal does not mention keep Go's zero values.
\<close>

definition convertMonobankTransaction :: "monobankTransaction \<Rightarrow> Card \<Rightarrow> Transaction" where
  "convertMonobankTransaction monoTx c =
     (let txType = (if 0 <s mono_Amount monoTx then ''income'' else ''expense'')
      in \<lparr> Tx_ID = uuid_Nil,
           Tx_CardID = Card_ID c,
           Tx_UserID = Card_UserID c,
           Tx_CategoryID = None,
           Tx_Amount = abs_int64 (mono_Amount monoTx),
           Tx_OperationAmount = abs_int64 (mono_OperationAmount monoTx),
           Tx_CurrencyCode = mono_CurrencyCode monoTx,
           Tx_OperationCurrencyCode = 0,
           Tx_Type = txType,
           Tx_Description = mono_Description monoTx,
           Tx_MCC = mono_MCC monoTx,
           Tx_CommissionRate = mono_CommissionRate monoTx,
           Tx_CashbackAmount = mono_CashbackAmount monoTx,
           Tx_BalanceAfter = mono_Balance monoTx,
           Tx_Hold = mono_Hold monoTx,
           Tx_TransactionDate = time_Unix (mono_Time monoTx),
           Tx_MonobankID = mono_ID monoTx,
           Tx_Comment = mono_Comment monoTx \<rparr>)"


section \<open>Errors and log entries\<close>

text \<open>
  The sentinel errors of \<^verbatim>\<open>domain/errors\<close> and of the service packages, the two errors the
  storage layer produces (\<^verbatim>\<open>gorm.ErrRecordNotFound\<close> and any other error of the database
  driver), the error of \<^verbatim>\<open>encoding/json\<close>, and the shapes \<^verbatim>\<open>fmt.Errorf\<close> is called with:
  \<open>Errorf\<close> is a message without a wrapped error, \<open>Wrap m e\<close> is \<^verbatim>\<open>"m: %w"\<close>,
  \<open>WithCause s e\<close> is \<^verbatim>\<open>"%w: %v"\<close> with an error as detail, \<open>WithText s m\<close> is
  \<^verbatim>\<open>"%w: m"\<close>, \<open>WithList\<close> has a string slice and \<open>WithStatus\<close> an HTTP status as detail.
\<close>

datatype error =
    ErrUserNotFound
  | ErrCardNotFound
  | ErrTransactionNotFound
  | ErrInvalidTransaction
  | ErrInsufficientFunds
  | ErrCategoryNotFound
  | ErrCategoryAlreadyExists
  | ErrInvalidCategoryData
  | ErrMonobankIntegrationNotFound
  | ErrMonobankTokenInvalid
  | ErrMonobankAPIError
  | ErrMonobankRateLimit
  | ErrUnauthorized
  | ErrValidation
  | ErrDatabaseOperation
  | ErrInternal
  | ErrInvalidRequest
  | ErrRecordNotFound
  | ErrDriver
  | ErrJSON
  | Errorf string
  | Wrap string error
  | WithCause error error
  | WithText error string
  | WithList error "string list"
  | WithStatus error nat

datatype logval = LStr string | LID uuid | LErr error

datatype log_entry =
    Warnw string "(string \<times> logval) list"
  | Errorw string "(string \<times> logval) list"

section \<open>The database\<close>

text \<open>
  A table is the list of its rows.  A delete of a transaction sets the row's
  \<^verbatim>\<open>DeletedAt\<close>; from then on every read, update and delete passes the row over, while the
  row keeps its primary key.  The rows so marked are the table \<open>deleted_transactions\<close>;
  no other delete is modelled.  The \<open>world\<close> a call runs in holds the tables, the
  outcome of the coming round trips to the database (\<open>True\<close>: the driver reports an error;
  an exhausted list means no further failures) and what the Monobank service has written
  to its logger.  The loggers of the repositories are not modelled.
\<close>

record database =
  users :: "User list"
  cards :: "Card list"
  transactions :: "Transaction list"
  deleted_transactions :: "Transaction list"
  categories :: "Category list"
  integrations :: "MonobankIntegration list"

record world =
  db :: database
  faults :: "bool list"
  logs :: "log_entry list"

definition exec :: "world \<Rightarrow> bool \<times> world" where
  "exec w = (case faults w of [] \<Rightarrow> (False, w) | f # fs \<Rightarrow> (f, w\<lparr>faults := fs\<rparr>))"

text \<open>A reading statement and a writing statement; the latter may also be refused by a constraint.\<close>

definition query :: "(database \<Rightarrow> 'a) \<Rightarrow> world \<Rightarrow> (error + 'a) \<times> world" where
  "query f w =
     (case exec w of (failed, w') \<Rightarrow>
        if failed then (Inl ErrDriver, w') else (Inr (f (db w')), w'))"

definition statement :: "(database \<Rightarrow> error + database) \<Rightarrow> world \<Rightarrow> error option \<times> world" where
  "statement g w =
     (case exec w of (failed, w') \<Rightarrow>
        if failed then (Some ErrDriver, w')
        else (case g (db w') of Inl e \<Rightarrow> (Some e, w') | Inr d \<Rightarrow> (None, w'\<lparr>db := d\<rparr>)))"

text \<open>
  \<^verbatim>\<open>db.Transaction(func(tx) error)\<close> of gorm: begin, run the body, roll the tables back when
  the body returns an error, commit otherwise; a failed commit persists nothing.
\<close>

definition gorm_Transaction ::
  "(world \<Rightarrow> error option \<times> world) \<Rightarrow> world \<Rightarrow> error option \<times> world" where
  "gorm_Transaction body w =
     (case exec w of (failed, w1) \<Rightarrow>
        if failed then (Some ErrDriver, w1)
        else (case body w1 of
                (Some e, w2) \<Rightarrow> (Some e, w2\<lparr>db := db w\<rparr>)
              | (None, w2) \<Rightarrow>
                  (case exec w2 of (failed', w3) \<Rightarrow>
                     if failed' then (Some ErrDriver, w3\<lparr>db := db w\<rparr>) else (None, w3))))"

text \<open>
  \<^verbatim>\<open>First\<close> with a condition on another column than the primary key orders by the primary
  key and takes one row.
\<close>

definition first_by_pk :: "('a \<Rightarrow> uuid) \<Rightarrow> 'a list \<Rightarrow> 'a option" where
  "first_by_pk key xs = (case sort_key key xs of [] \<Rightarrow> None | x # _ \<Rightarrow> Some x)"

text \<open>The column default \<^verbatim>\<open>gen_random_uuid()\<close>: an identifier that no row of the table has.\<close>

definition fresh_uuid :: "uuid list \<Rightarrow> uuid" where
  "fresh_uuid ids = Suc (fold max ids 0)"

definition valid_type :: "string \<Rightarrow> bool" where
  "valid_type t = (t = ''expense'' \<or> t = ''income'' \<or> t = ''transfer'')"

text \<open>
  \<^verbatim>\<open>Create\<close> of a row: a nil identifier takes the column default, a used one violates the
  primary key, and the \<^verbatim>\<open>check:type IN (...)\<close> constraint of the entity is enforced.
\<close>

definition transaction_keys :: "database \<Rightarrow> uuid list" where
  "transaction_keys d = map Tx_ID (transactions d @ deleted_transactions d)"

definition insert_transaction :: "Transaction \<Rightarrow> database \<Rightarrow> error + database" where
  "insert_transaction t d =
     (if \<not> valid_type (Tx_Type t) then Inl ErrDriver
      else if Tx_ID t = uuid_Nil
        then Inr (d\<lparr>transactions :=
                      transactions d @ [t\<lparr>Tx_ID := fresh_uuid (transaction_keys d)\<rparr>]\<rparr>)
      else if Tx_ID t \<in> set (transaction_keys d) then Inl ErrDriver
      else Inr (d\<lparr>transactions := transactions d @ [t]\<rparr>))"

definition insert_category :: "Category \<Rightarrow> database \<Rightarrow> error + database" where
  "insert_category c d =
     (if \<not> valid_type (Cat_Type c) then Inl ErrDriver
      else if Cat_ID c = uuid_Nil
        then Inr (d\<lparr>categories :=
                      categories d @ [c\<lparr>Cat_ID := fresh_uuid (map Cat_ID (categories d))\<rparr>]\<rparr>)
      else if Cat_ID c \<in> set (map Cat_ID (categories d)) then Inl ErrDriver
      else Inr (d\<lparr>categories := categories d @ [c]\<rparr>))"

text \<open>\<^verbatim>\<open>Save(&card)\<close> of a card that was just read: every column of the row is written.\<close>

definition save_card :: "Card \<Rightarrow> database \<Rightarrow> error + database" where
  "save_card c d = Inr (d\<lparr>cards := map (\<lambda>x. if Card_ID x = Card_ID c then c else x) (cards d)\<rparr>)"

section \<open>Repositories\<close>

text \<open>
  The read operations of the user, card, category and integration repositories.  Each is one
  round trip; \<^verbatim>\<open>gorm.ErrRecordNotFound\<close> is turned into a nil result, any other error is
  returned.
\<close>

definition userRepository_GetByID :: "uuid \<Rightarrow> world \<Rightarrow> (error + User option) \<times> world" where
  "userRepository_GetByID i w = query (\<lambda>d. find (\<lambda>u. User_ID u = i) (users d)) w"

definition cardRepository_GetByID :: "uuid \<Rightarrow> world \<Rightarrow> (error + Card option) \<times> world" where
  "cardRepository_GetByID i w = query (\<lambda>d. find (\<lambda>c. Card_ID c = i) (cards d)) w"

definition cardRepository_GetByUserID :: "uuid \<Rightarrow> world \<Rightarrow> (error + Card list) \<times> world" where
  "cardRepository_GetByUserID userID w = query (\<lambda>d. filter (\<lambda>c. Card_UserID c = userID) (cards d)) w"

definition cardRepository_GetByMonobankAccountID ::
  "string \<Rightarrow> world \<Rightarrow> (error + Card option) \<times> world" where
  "cardRepository_GetByMonobankAccountID accountID w =
     query (\<lambda>d. first_by_pk Card_ID
                  (filter (\<lambda>c. Card_MonobankAccountID c = accountID \<and> \<not> Card_IsManual c) (cards d))) w"

definition categoryRepository_GetByID :: "uuid \<Rightarrow> world \<Rightarrow> (error + Category option) \<times> world" where
  "categoryRepository_GetByID i w = query (\<lambda>d. find (\<lambda>c. Cat_ID c = i) (categories d)) w"

text \<open>\<^verbatim>\<open>Order("CASE WHEN parent_id IS NULL THEN 0 ELSE 1 END, name")\<close>.\<close>

definition category_order :: "Category \<Rightarrow> nat \<times> string" where
  "category_order c = (case Cat_ParentID c of None \<Rightarrow> 0 | Some _ \<Rightarrow> 1, Cat_Name c)"

definition categoryRepository_GetByUserID ::
  "uuid \<Rightarrow> world \<Rightarrow> (error + Category list) \<times> world" where
  "categoryRepository_GetByUserID userID w =
     query (\<lambda>d. sort_key category_order (filter (\<lambda>c. Cat_UserID c = userID) (categories d))) w"

definition categoryRepository_Create :: "Category \<Rightarrow> world \<Rightarrow> error option \<times> world" where
  "categoryRepository_Create c w = statement (insert_category c) w"

definition monobankIntegrationRepository_GetByUserID ::
  "uuid \<Rightarrow> world \<Rightarrow> (error + MonobankIntegration option) \<times> world" where
  "monobankIntegrationRepository_GetByUserID userID w =
     query (\<lambda>d. first_by_pk Int_ID (filter (\<lambda>i. Int_UserID i = userID) (integrations d))) w"

subsection \<open>The transaction repository of the ledger\<close>

text \<open>
  \<^verbatim>\<open>transactionRepository.Create\<close>: inside one database transaction, insert the row, read
  the card by the transaction's card identifier, move its balance by the amount according
  to the type, and save the card.  The read \<^verbatim>\<open>tx.First(&card, transaction.CardID)\<close> is
  taken as the lookup by primary key that it is written to be.
\<close>

definition transactionRepository_Create :: "Transaction \<Rightarrow> world \<Rightarrow> error option \<times> world" where
  "transactionRepository_Create t w =
     gorm_Transaction (\<lambda>tx.
       case statement (insert_transaction t) tx of
         (Some e, tx1) \<Rightarrow> (Some e, tx1)
       | (None, tx1) \<Rightarrow>
           (case query (\<lambda>d. find (\<lambda>c. Card_ID c = Tx_CardID t) (cards d)) tx1 of
              (Inl e, tx2) \<Rightarrow> (Some e, tx2)
            | (Inr None, tx2) \<Rightarrow> (Some ErrRecordNotFound, tx2)
            | (Inr (Some c), tx2) \<Rightarrow>
                (let balance =
                       (if Tx_Type t = ''income'' then Card_Balance c + Tx_Amount t
                        else if Tx_Type t = ''expense'' then Card_Balance c - Tx_Amount t
                        else if Tx_Type t = ''transfer'' then Card_Balance c - Tx_Amount t
                        else Card_Balance c)
                 in statement (save_card (c\<lparr>Card_Balance := balance\<rparr>)) tx2))) w"

definition transactionRepository_GetByID ::
  "uuid \<Rightarrow> world \<Rightarrow> (error + Transaction option) \<times> world" where
  "transactionRepository_GetByID i w = query (\<lambda>d. find (\<lambda>t. Tx_ID t = i) (transactions d)) w"

text \<open>Newest first; a limit or an offset applies only when it is positive.\<close>

definition transactionRepository_GetByCardID ::
  "uuid \<Rightarrow> int \<Rightarrow> int \<Rightarrow> world \<Rightarrow> (error + Transaction list) \<times> world" where
  "transactionRepository_GetByCardID cardID limit offset w =
     query (\<lambda>d.
       (let rows = sort_key (\<lambda>t. - Tx_TransactionDate t)
                     (filter (\<lambda>t. Tx_CardID t = cardID) (transactions d));
            rows1 = (if 0 < offset then drop (nat offset) rows else rows)
        in if 0 < limit then take (nat limit) rows1 else rows1)) w"

definition transactionRepository_GetByMonobankID ::
  "string \<Rightarrow> world \<Rightarrow> (error + Transaction option) \<times> world" where
  "transactionRepository_GetByMonobankID monobankID w =
     query (\<lambda>d. first_by_pk Tx_ID (filter (\<lambda>t. Tx_MonobankID t = monobankID) (transactions d))) w"

text \<open>
  \<^verbatim>\<open>transactionRepository.Update\<close> writes the listed columns of the row with the
  transaction's identifier, under the constraint on the type, and
  \<^verbatim>\<open>transactionRepository.Delete\<close> marks that row as deleted; both report
  \<^verbatim>\<open>gorm.ErrRecordNotFound\<close> when no row was affected, and a statement that affects no row
  meets no constraint.  Neither touches the table of another entity.
\<close>

definition update_transaction :: "Transaction \<Rightarrow> database \<Rightarrow> error + database" where
  "update_transaction t d =
     (if Tx_ID t \<notin> set (map Tx_ID (transactions d)) then Inl ErrRecordNotFound
      else if \<not> valid_type (Tx_Type t) then Inl ErrDriver
      else Inr (d\<lparr>transactions :=
                    map (\<lambda>r. if Tx_ID r = Tx_ID t
                              then r\<lparr>Tx_CategoryID := Tx_CategoryID t,
                                     Tx_Amount := Tx_Amount t,
                                     Tx_OperationAmount := Tx_OperationAmount t,
                                     Tx_CurrencyCode := Tx_CurrencyCode t,
                                     Tx_OperationCurrencyCode := Tx_OperationCurrencyCode t,
                                     Tx_Type := Tx_Type t,
                                     Tx_Description := Tx_Description t,
                                     Tx_MCC := Tx_MCC t,
                                     Tx_CommissionRate := Tx_CommissionRate t,
                                     Tx_CashbackAmount := Tx_CashbackAmount t,
                                     Tx_BalanceAfter := Tx_BalanceAfter t,
                                     Tx_Hold := Tx_Hold t,
                                     Tx_TransactionDate := Tx_TransactionDate t,
                                     Tx_Comment := Tx_Comment t\<rparr>
                              else r) (transactions d)\<rparr>))"

definition transactionRepository_Update :: "Transaction \<Rightarrow> world \<Rightarrow> error option \<times> world" where
  "transactionRepository_Update t w = statement (update_transaction t) w"

definition delete_transaction :: "uuid \<Rightarrow> database \<Rightarrow> error + database" where
  "delete_transaction i d =
     (if i \<notin> set (map Tx_ID (transactions d)) then Inl ErrRecordNotFound
      else Inr (d\<lparr>transactions := filter (\<lambda>r. Tx_ID r \<noteq> i) (transactions d),
                  deleted_transactions :=
                    deleted_transactions d @ filter (\<lambda>r. Tx_ID r = i) (transactions d)\<rparr>))"

definition transactionRepository_Delete :: "uuid \<Rightarrow> world \<Rightarrow> error option \<times> world" where
  "transactionRepository_Delete i w = statement (delete_transaction i) w"

section \<open>The transaction service\<close>

definition validateTransaction :: "Transaction \<Rightarrow> Card \<Rightarrow> error option" where
  "validateTransaction t c =
     (if Tx_Amount t \<le>s 0 then Some (WithText ErrInvalidTransaction ''amount must be positive'')
      else if Tx_Type t \<noteq> ''expense'' \<and> Tx_Type t \<noteq> ''income'' \<and> Tx_Type t \<noteq> ''transfer''
        then Some (WithText ErrInvalidTransaction ''invalid transaction type'')
      else if Tx_CurrencyCode t \<noteq> Card_CurrencyCode c
        then Some (WithText ErrInvalidTransaction ''transaction currency must match card currency'')
      else if Tx_Description t = []
        then Some (WithText ErrInvalidTransaction ''description is required'')
      else None)"

text \<open>
  The block \<^verbatim>\<open>// Verify category if provided\<close>, which \<^verbatim>\<open>CreateTransaction\<close> and
  \<^verbatim>\<open>UpdateTransaction\<close> both contain word for word.
\<close>

definition verifyCategory :: "uuid \<Rightarrow> Transaction \<Rightarrow> world \<Rightarrow> error option \<times> world" where
  "verifyCategory userID t w =
     (case Tx_CategoryID t of
        None \<Rightarrow> (None, w)
      | Some categoryID \<Rightarrow>
          (case categoryRepository_GetByID categoryID w of
             (Inl e, w1) \<Rightarrow> (Some (Wrap ''failed to verify category'' e), w1)
           | (Inr None, w1) \<Rightarrow> (Some (Errorf ''category not found''), w1)
           | (Inr (Some category), w1) \<Rightarrow>
               if Cat_UserID category \<noteq> userID then (Some ErrUnauthorized, w1)
               else if Cat_Type category \<noteq> Tx_Type t
                 then (Some (Errorf ''category type does not match transaction type''), w1)
               else (None, w1)))"

text \<open>
  \<^verbatim>\<open>transactionService.CreateTransaction\<close>; \<open>now\<close> is what \<^verbatim>\<open>time.Now()\<close> returns.
\<close>

definition CreateTransaction :: "time \<Rightarrow> uuid \<Rightarrow> Transaction \<Rightarrow> world \<Rightarrow> error option \<times> world" where
  "CreateTransaction now userID t w =
     (case cardRepository_GetByID (Tx_CardID t) w of
        (Inl e, w1) \<Rightarrow> (Some (Wrap ''failed to verify card'' e), w1)
      | (Inr None, w1) \<Rightarrow> (Some ErrCardNotFound, w1)
      | (Inr (Some c), w1) \<Rightarrow>
          if Card_UserID c \<noteq> userID then (Some ErrUnauthorized, w1)
          else (case verifyCategory userID t w1 of
                  (Some e, w2) \<Rightarrow> (Some e, w2)
                | (None, w2) \<Rightarrow>
                    (case validateTransaction t c of
                       Some e \<Rightarrow> (Some e, w2)
                     | None \<Rightarrow>
                         (let t1 = t\<lparr>Tx_UserID := userID,
                                      Tx_TransactionDate :=
                                        (if IsZero (Tx_TransactionDate t) then now
                                         else Tx_TransactionDate t)\<rparr>;
                              newBalance =
                                (if Tx_Type t1 = ''expense'' then Card_Balance c - Tx_Amount t1
                                 else if Tx_Type t1 = ''income'' then Card_Balance c + Tx_Amount t1
                                 else if Tx_Type t1 = ''transfer'' then Card_Balance c - Tx_Amount t1
                                 else Card_Balance c)
                          in if newBalance <s - Card_CreditLimit c then (Some ErrInsufficientFunds, w2)
                             else (case transactionRepository_Create
                                          (t1\<lparr>Tx_BalanceAfter := newBalance\<rparr>) w2 of
                                     (Some e, w3) \<Rightarrow>
                                       (Some (Wrap ''failed to create transaction'' e), w3)
                                   | (None, w3) \<Rightarrow> (None, w3))))))"

definition UpdateTransaction :: "uuid \<Rightarrow> Transaction \<Rightarrow> world \<Rightarrow> error option \<times> world" where
  "UpdateTransaction userID t w =
     (case transactionRepository_GetByID (Tx_ID t) w of
        (Inl e, w1) \<Rightarrow> (Some (Wrap ''failed to get transaction'' e), w1)
      | (Inr None, w1) \<Rightarrow> (Some ErrTransactionNotFound, w1)
      | (Inr (Some existingTx), w1) \<Rightarrow>
          if Tx_UserID existingTx \<noteq> userID then (Some ErrUnauthorized, w1)
          else if Tx_MonobankID existingTx \<noteq> []
            then (Some (Errorf ''cannot modify monobank transaction''), w1)
          else (case cardRepository_GetByID (Tx_CardID existingTx) w1 of
                  (Inl e, w2) \<Rightarrow> (Some (Wrap ''failed to get card'' e), w2)
                | (Inr None, w2) \<Rightarrow> (Some ErrCardNotFound, w2)
                | (Inr (Some c), w2) \<Rightarrow>
                    (case verifyCategory userID t w2 of
                       (Some e, w3) \<Rightarrow> (Some e, w3)
                     | (None, w3) \<Rightarrow>
                         (case validateTransaction t c of
                            Some e \<Rightarrow> (Some e, w3)
                          | None \<Rightarrow>
                              (case transactionRepository_Update
                                      (t\<lparr>Tx_UserID := Tx_UserID existingTx,
                                         Tx_CardID := Tx_CardID existingTx,
                                         Tx_MonobankID := []\<rparr>) w3 of
                                 (Some e, w4) \<Rightarrow>
                                   (Some (Wrap ''failed to update transaction'' e), w4)
                               | (None, w4) \<Rightarrow> (None, w4))))))"

definition DeleteTransaction :: "uuid \<Rightarrow> uuid \<Rightarrow> world \<Rightarrow> error option \<times> world" where
  "DeleteTransaction userID transactionID w =
     (case transactionRepository_GetByID transactionID w of
        (Inl e, w1) \<Rightarrow> (Some (Wrap ''failed to get transaction'' e), w1)
      | (Inr None, w1) \<Rightarrow> (Some ErrTransactionNotFound, w1)
      | (Inr (Some t), w1) \<Rightarrow>
          if Tx_UserID t \<noteq> userID then (Some ErrUnauthorized, w1)
          else if Tx_MonobankID t \<noteq> []
            then (Some (Errorf ''cannot delete monobank transaction''), w1)
          else (case transactionRepository_Delete transactionID w1 of
                  (Some e, w2) \<Rightarrow> (Some (Wrap ''failed to delete transaction'' e), w2)
                | (None, w2) \<Rightarrow> (None, w2)))"

section \<open>The Monobank service\<close>

text \<open>
  The service holds its transaction repository as a value of the interface
  \<^verbatim>\<open>repository.TransactionRepository\<close>; the three methods it calls are the fields of
  \<open>TransactionRepository\<close>.  The repository contains two implementations of the interface:
  the one of the ledger above (\<open>ledger_repository\<close>), and the one next to the service
  (\<open>plain_repository\<close>), whose \<^verbatim>\<open>Create\<close> is the bare insert and whose \<^verbatim>\<open>GetByCardID\<close>
  hands limit and offset to gorm as they are: a negative limit is no limit, and an offset
  applies when it is positive.
\<close>

record TransactionRepository =
  repo_Create :: "Transaction \<Rightarrow> world \<Rightarrow> error option \<times> world"
  repo_GetByCardID :: "uuid \<Rightarrow> int \<Rightarrow> int \<Rightarrow> world \<Rightarrow> (error + Transaction list) \<times> world"
  repo_GetByMonobankID :: "string \<Rightarrow> world \<Rightarrow> (error + Transaction option) \<times> world"

definition ledger_repository :: TransactionRepository where
  "ledger_repository =
     \<lparr> repo_Create = transactionRepository_Create,
       repo_GetByCardID = transactionRepository_GetByCardID,
       repo_GetByMonobankID = transactionRepository_GetByMonobankID \<rparr>"

definition plain_Create :: "Transaction \<Rightarrow> world \<Rightarrow> error option \<times> world" where
  "plain_Create t w = statement (insert_transaction t) w"

definition plain_GetByCardID ::
  "uuid \<Rightarrow> int \<Rightarrow> int \<Rightarrow> world \<Rightarrow> (error + Transaction list) \<times> world" where
  "plain_GetByCardID cardID limit offset w =
     query (\<lambda>d.
       (let rows = sort_key (\<lambda>t. - Tx_TransactionDate t)
                     (filter (\<lambda>t. Tx_CardID t = cardID) (transactions d));
            rows1 = (if 0 < offset then drop (nat offset) rows else rows)
        in if limit < 0 then rows1 else take (nat limit) rows1)) w"

definition plain_repository :: TransactionRepository where
  "plain_repository =
     \<lparr> repo_Create = plain_Create,
       repo_GetByCardID = plain_GetByCardID,
       repo_GetByMonobankID = transactionRepository_GetByMonobankID \<rparr>"

text \<open>
  What lies outside the process: the instant \<^verbatim>\<open>time.Now().AddDate(0, -1, 0)\<close>, whether
  \<^verbatim>\<open>http.NewRequest\<close> accepts the statement URL built from an account and the second
  count of a start time,
  and the provider's answer to the request made with a token.  An answer is a transport
  error, or a status with what the body decodes to as a list of statement items.
\<close>

datatype http_result =
    TransportError
  | Response nat "monobankTransaction list option"

record environment =
  env_lastMonth :: time
  env_NewRequest :: "string \<Rightarrow> int \<Rightarrow> bool"
  env_Do :: "string \<Rightarrow> int \<Rightarrow> string \<Rightarrow> http_result"

definition log_append :: "log_entry \<Rightarrow> world \<Rightarrow> world" where
  "log_append e w = w\<lparr>logs := logs w @ [e]\<rparr>"

text \<open>The loop \<^verbatim>\<open>// Process transactions\<close> of \<^verbatim>\<open>syncCardTransactions\<close>.\<close>

fun processTransactions ::
  "TransactionRepository \<Rightarrow> Card \<Rightarrow> monobankTransaction list \<Rightarrow> world \<Rightarrow> world" where
  "processTransactions R c [] w = w"
| "processTransactions R c (monoTx # rest) w =
     (case repo_GetByMonobankID R (mono_ID monoTx) w of
        (Inl e, w1) \<Rightarrow>
          processTransactions R c rest
            (log_append (Errorw ''Failed to check existing transaction''
                           [(''error'', LErr e), (''monobank_id'', LStr (mono_ID monoTx))]) w1)
      | (Inr (Some existing), w1) \<Rightarrow> processTransactions R c rest w1
      | (Inr None, w1) \<Rightarrow>
          (case repo_Create R (convertMonobankTransaction monoTx c) w1 of
             (Some e, w2) \<Rightarrow>
               processTransactions R c rest
                 (log_append (Errorw ''Failed to create transaction''
                                [(''error'', LErr e), (''monobank_id'', LStr (mono_ID monoTx))]) w2)
           | (None, w2) \<Rightarrow> processTransactions R c rest w2))"

definition syncCardTransactions ::
  "TransactionRepository \<Rightarrow> environment \<Rightarrow> Card \<Rightarrow> string \<Rightarrow> world \<Rightarrow> error option \<times> world" where
  "syncCardTransactions R env c token w =
     (case repo_GetByCardID R (Card_ID c) 1 0 w of
        (Inl e, w1) \<Rightarrow> (Some (WithText ErrDatabaseOperation ''failed to get last transaction''), w1)
      | (Inr lastTx, w1) \<Rightarrow>
          (let from = (case lastTx of t # _ \<Rightarrow> Unix (Tx_TransactionDate t)
                                     | [] \<Rightarrow> Unix (env_lastMonth env))
           in if \<not> env_NewRequest env (Card_MonobankAccountID c) from
                then (Some (WithText ErrInternal ''failed to create request''), w1)
              else (case env_Do env (Card_MonobankAccountID c) from token of
                      TransportError \<Rightarrow>
                        (Some (WithText ErrMonobankAPIError ''failed to make request''), w1)
                    | Response status body \<Rightarrow>
                        if status = 429 then (Some ErrMonobankRateLimit, w1)
                        else if status = 401 then (Some ErrMonobankTokenInvalid, w1)
                        else if status \<noteq> 200 then (Some (WithStatus ErrMonobankAPIError status), w1)
                        else (case body of
                                None \<Rightarrow>
                                  (Some (WithText ErrMonobankAPIError ''failed to decode response''), w1)
                              | Some txs \<Rightarrow> (None, processTransactions R c txs w1)))))"

text \<open>The loop \<^verbatim>\<open>// Sync transactions for each card\<close> of \<^verbatim>\<open>SyncUserData\<close>.\<close>

fun syncCards ::
  "TransactionRepository \<Rightarrow> environment \<Rightarrow> string \<Rightarrow> Card list \<Rightarrow> world \<Rightarrow> world" where
  "syncCards R env token [] w = w"
| "syncCards R env token (c # cs) w =
     (if \<not> Card_IsManual c \<and> Card_MonobankAccountID c \<noteq> []
      then (case syncCardTransactions R env c token w of
              (Some err, w1) \<Rightarrow>
                syncCards R env token cs
                  (log_append (Errorw ''Failed to sync card transactions''
                                 [(''error'', LErr err), (''card_id'', LID (Card_ID c)),
                                  (''account_id'', LStr (Card_MonobankAccountID c))]) w1)
            | (None, w1) \<Rightarrow> syncCards R env token cs w1)
      else syncCards R env token cs w)"

definition SyncUserData ::
  "TransactionRepository \<Rightarrow> environment \<Rightarrow> uuid \<Rightarrow> world \<Rightarrow> error option \<times> world" where
  "SyncUserData R env userID w =
     (case monobankIntegrationRepository_GetByUserID userID w of
        (Inl e, w1) \<Rightarrow> (Some (WithCause ErrDatabaseOperation e), w1)
      | (Inr None, w1) \<Rightarrow> (Some ErrMonobankIntegrationNotFound, w1)
      | (Inr (Some integration), w1) \<Rightarrow>
          (case cardRepository_GetByUserID userID w1 of
             (Inl e, w2) \<Rightarrow> (Some (WithCause ErrDatabaseOperation e), w2)
           | (Inr cs, w2) \<Rightarrow> (None, syncCards R env (Int_Token integration) cs w2)))"

text \<open>
  A webhook body, as \<^verbatim>\<open>encoding/json\<close> decodes it: not an envelope at all, or an envelope
  with its type and with what its \<^verbatim>\<open>data\<close> decodes to as a statement (an account and a
  statement item, or a decoding error).  The data is decoded for the type
  \<^verbatim>\<open>"StatementItem"\<close> only.
\<close>

datatype webhook_data =
    BadStatement
  | Statement string monobankTransaction

datatype webhook =
    BadJSON
  | Envelope string webhook_data

text \<open>\<^verbatim>\<open>MonobankService.HandleWebhook\<close>, the method of the service next to the handlers.\<close>

definition HandleWebhook :: "TransactionRepository \<Rightarrow> webhook \<Rightarrow> world \<Rightarrow> error option \<times> world" where
  "HandleWebhook R payload w =
     (case payload of
        BadJSON \<Rightarrow> (Some (WithText ErrInvalidRequest ''failed to parse webhook data''), w)
      | Envelope ty dat \<Rightarrow>
          if ty = ''StatementItem''
          then (case dat of
                  BadStatement \<Rightarrow>
                    (Some (WithText ErrInvalidRequest ''failed to parse statement data''), w)
                | Statement account item \<Rightarrow>
                    (case cardRepository_GetByMonobankAccountID account w of
                       (Inl e, w1) \<Rightarrow> (Some (WithCause ErrDatabaseOperation e), w1)
                     | (Inr None, w1) \<Rightarrow> (Some (WithText ErrCardNotFound (''account '' @ account)), w1)
                     | (Inr (Some c), w1) \<Rightarrow>
                         (case repo_Create R (convertMonobankTransaction item c) w1 of
                            (Some e, w2) \<Rightarrow> (Some (WithCause ErrDatabaseOperation e), w2)
                          | (None, w2) \<Rightarrow> (None, w2))))
          else (None, log_append (Warnw ''Unknown webhook type'' [(''type'', LStr ty)]) w))"

text \<open>
  \<^verbatim>\<open>monobankService.HandleWebhook\<close>, the method of the service under \<^verbatim>\<open>backend/app\<close>: the
  same steps with other error texts, and an error for an unknown type.
\<close>

definition app_HandleWebhook :: "TransactionRepository \<Rightarrow> webhook \<Rightarrow> world \<Rightarrow> error option \<times> world" where
  "app_HandleWebhook R payload w =
     (case payload of
        BadJSON \<Rightarrow>
          (Some (Wrap ''failed to parse webhook data'' ErrJSON),
           log_append (Errorw ''Failed to unmarshal webhook data'' [(''error'', LErr ErrJSON)]) w)
      | Envelope ty dat \<Rightarrow>
          if ty = ''StatementItem''
          then (case dat of
                  BadStatement \<Rightarrow>
                    (Some (Wrap ''failed to parse statement data'' ErrJSON),
                     log_append (Errorw ''Failed to unmarshal statement data''
                                   [(''error'', LErr ErrJSON)]) w)
                | Statement account item \<Rightarrow>
                    (case cardRepository_GetByMonobankAccountID account w of
                       (Inl e, w1) \<Rightarrow>
                         (Some (Wrap ''failed to get card'' e),
                          log_append (Errorw ''Failed to get card by account ID''
                                        [(''error'', LErr e), (''account_id'', LStr account)]) w1)
                     | (Inr None, w1) \<Rightarrow>
                         (Some (Errorf (''card not found for account: '' @ account)), w1)
                     | (Inr (Some c), w1) \<Rightarrow>
                         (case repo_Create R (convertMonobankTransaction item c) w1 of
                            (Some e, w2) \<Rightarrow>
                              (Some (Wrap ''failed to create transaction'' e),
                               log_append (Errorw ''Failed to create transaction from webhook''
                                             [(''error'', LErr e), (''account_id'', LStr account)]) w2)
                          | (None, w2) \<Rightarrow> (None, w2))))
          else (Some (Errorf (''unknown webhook type: '' @ ty)),
                log_append (Warnw ''Unknown webhook type'' [(''type'', LStr ty)]) w))"

section \<open>The category repository and service\<close>

text \<open>
  \<^verbatim>\<open>categoryRepository.checkCategoryCircularReference\<close>: the loop carries the node it is
  at and the set of nodes it has marked as visited; every round reads one row.
\<close>

function checkCategoryCircularReference_loop ::
  "uuid \<Rightarrow> uuid \<Rightarrow> uuid set \<Rightarrow> world \<Rightarrow> error option \<times> world" where
  "checkCategoryCircularReference_loop categoryID current visited w =
     (if current = categoryID
      then (Some (Errorf ''circular reference detected in category hierarchy''), w)
      else (case query (\<lambda>d. find (\<lambda>c. Cat_ID c = current) (categories d)) w of
              (Inl e, w1) \<Rightarrow> (Some e, w1)
            | (Inr None, w1) \<Rightarrow> (None, w1)
            | (Inr (Some parent), w1) \<Rightarrow>
                (case Cat_ParentID parent of
                   None \<Rightarrow> (None, w1)
                 | Some nxt \<Rightarrow>
                     if nxt \<in> insert current visited
                     then (Some (Errorf ''circular reference detected in existing category hierarchy''),
                           w1)
                     else checkCategoryCircularReference_loop categoryID nxt
                            (insert current visited) w1)))"
  by pat_completeness auto
termination
proof (relation "measure (\<lambda>(categoryID, current, visited, w).
          2 * card (set (map Cat_ID (categories (db w))) - visited)
          + (if current \<in> visited then 1 else 0))", goal_cases)
  case 1
  show ?case by simp
next
  case (2 categoryID current visited w x w1 r parent nxt)
  have q: "query (\<lambda>d. find (\<lambda>c. Cat_ID c = current) (categories d)) w = (Inr (Some parent), w1)"
    using 2 by simp
  have dbeq: "db w1 = db w"
    using q by (auto simp: query_def exec_def split: list.splits if_splits)
  have "find (\<lambda>c. Cat_ID c = current) (categories (db w)) = Some parent"
    using q by (auto simp: query_def exec_def split: list.splits if_splits)
  then have mem: "current \<in> set (map Cat_ID (categories (db w)))"
    by (auto simp: find_Some_iff)
  have fresh: "nxt \<notin> insert current visited"
    using 2 by simp
  let ?ids = "set (map Cat_ID (categories (db w)))"
  show ?case
  proof (cases "current \<in> visited")
    case True
    then have "insert current visited = visited" by auto
    with True fresh dbeq show ?thesis by simp
  next
    case False
    have fin: "finite (?ids - visited)" by simp
    have eq: "?ids - insert current visited = (?ids - visited) - {current}" by auto
    have cur: "current \<in> ?ids - visited" using mem False by simp
    have "card ((?ids - visited) - {current}) < card (?ids - visited)"
      using fin cur by (rule card_Diff1_less)
    then have "card (?ids - insert current visited) < card (?ids - visited)"
      by (simp only: eq)
    with False fresh dbeq show ?thesis by simp
  qed
qed

declare checkCategoryCircularReference_loop.simps [simp del]

definition checkCategoryCircularReference :: "uuid \<Rightarrow> uuid \<Rightarrow> world \<Rightarrow> error option \<times> world" where
  "checkCategoryCircularReference categoryID parentID w =
     checkCategoryCircularReference_loop categoryID parentID {} w"

text \<open>
  \<^verbatim>\<open>categoryRepository.Update\<close>: with a parent, the parent must be readable, belong to the
  same user and pass the check above; then name, parent and type of the row are written.
\<close>

definition update_category :: "Category \<Rightarrow> database \<Rightarrow> error + database" where
  "update_category c d =
     (if Cat_ID c \<notin> set (map Cat_ID (categories d)) then Inl ErrRecordNotFound
      else if \<not> valid_type (Cat_Type c) then Inl ErrDriver
      else Inr (d\<lparr>categories :=
                    map (\<lambda>r. if Cat_ID r = Cat_ID c
                              then r\<lparr>Cat_Name := Cat_Name c,
                                     Cat_ParentID := Cat_ParentID c,
                                     Cat_Type := Cat_Type c\<rparr>
                              else r) (categories d)\<rparr>))"

definition categoryRepository_Update :: "Category \<Rightarrow> world \<Rightarrow> error option \<times> world" where
  "categoryRepository_Update c w =
     (case Cat_ParentID c of
        None \<Rightarrow> statement (update_category c) w
      | Some parentID \<Rightarrow>
          (case query (\<lambda>d. find (\<lambda>p. Cat_ID p = parentID) (categories d)) w of
             (Inl e, w1) \<Rightarrow> (Some e, w1)
           | (Inr None, w1) \<Rightarrow> (Some ErrRecordNotFound, w1)
           | (Inr (Some parent), w1) \<Rightarrow>
               if Cat_UserID parent \<noteq> Cat_UserID c
               then (Some (Errorf ''parent category must belong to the same user''), w1)
               else (case checkCategoryCircularReference (Cat_ID c) parentID w1 of
                       (Some e, w2) \<Rightarrow> (Some e, w2)
                     | (None, w2) \<Rightarrow> statement (update_category c) w2)))"

text \<open>\<^verbatim>\<open>categoryService.validateCategory\<close>; \<open>None\<close> as argument is the nil pointer.\<close>

definition validateCategory :: "Category option \<Rightarrow> error option" where
  "validateCategory category =
     (case category of
        None \<Rightarrow> Some ErrInvalidCategoryData
      | Some c \<Rightarrow>
          (let validationErrors =
                 (if Cat_UserID c = uuid_Nil then [''user ID is required''] else [])
                 @ (if Cat_Name c = [] then [''name is required''] else [])
                 @ (if Cat_Type c = [] then [''type is required''] else [])
           in if 0 < length validationErrors then Some (WithList ErrValidation validationErrors)
              else None))"

text \<open>
  \<^verbatim>\<open>categoryService.Create\<close>; \<open>newID\<close> is the identifier \<^verbatim>\<open>uuid.New()\<close> draws when the
  category comes without one.
\<close>

definition categoryService_Create ::
  "uuid \<Rightarrow> Category option \<Rightarrow> world \<Rightarrow> error option \<times> world" where
  "categoryService_Create newID category w =
     (case validateCategory category of
        Some err \<Rightarrow> (Some (WithCause ErrInvalidCategoryData err), w)
      | None \<Rightarrow>
          (case category of
             None \<Rightarrow> (Some (WithCause ErrInvalidCategoryData ErrInvalidCategoryData), w)
           | Some c \<Rightarrow>
               (case userRepository_GetByID (Cat_UserID c) w of
                  (Inl e, w1) \<Rightarrow> (Some (WithCause ErrDatabaseOperation e), w1)
                | (Inr None, w1) \<Rightarrow> (Some ErrUserNotFound, w1)
                | (Inr (Some user), w1) \<Rightarrow>
                    (case categoryRepository_GetByUserID (Cat_UserID c) w1 of
                       (Inl e, w2) \<Rightarrow> (Some (WithCause ErrDatabaseOperation e), w2)
                     | (Inr existingCategories, w2) \<Rightarrow>
                         if list_ex (\<lambda>existingCategory. Cat_Name existingCategory = Cat_Name c)
                              existingCategories
                         then (Some ErrCategoryAlreadyExists, w2)
                         else (case categoryRepository_Create
                                      (if Cat_ID c = uuid_Nil then c\<lparr>Cat_ID := newID\<rparr> else c) w2 of
                                 (Some e, w3) \<Rightarrow> (Some (WithCause ErrDatabaseOperation e), w3)
                               | (None, w3) \<Rightarrow> (None, w3))))))"

text \<open>
  \<^verbatim>\<open>categoryService.wouldCreateCircularReference\<close>.  Its loop follows parent links for as
  long as there is one and keeps no record of the nodes it has seen, so it need not come to
  an end: the result \<open>None\<close> of \<open>ancestorWalk\<close> stands for a walk that never returns.
\<close>

partial_function (option) ancestorWalk :: "uuid \<Rightarrow> Category \<Rightarrow> world \<Rightarrow> (bool \<times> world) option" where
  "ancestorWalk categoryID current w =
     (case Cat_ParentID current of
        None \<Rightarrow> Some (False, w)
      | Some parentID \<Rightarrow>
          if parentID = categoryID then Some (True, w)
          else (case categoryRepository_GetByID parentID w of
                  (Inl e, w1) \<Rightarrow> Some (False, w1)
                | (Inr None, w1) \<Rightarrow> Some (False, w1)
                | (Inr (Some next), w1) \<Rightarrow> ancestorWalk categoryID next w1))"

definition wouldCreateCircularReference :: "uuid \<Rightarrow> uuid \<Rightarrow> world \<Rightarrow> (bool \<times> world) option" where
  "wouldCreateCircularReference categoryID newParentID w =
     (if categoryID = newParentID then Some (True, w)
      else (case categoryRepository_GetByID newParentID w of
              (Inl e, w1) \<Rightarrow> Some (False, w1)
            | (Inr None, w1) \<Rightarrow> Some (False, w1)
            | (Inr (Some parent), w1) \<Rightarrow> ancestorWalk categoryID parent w1))"

text \<open>
  \<^verbatim>\<open>categoryService.MoveCategory\<close>; the result \<open>None\<close> is a call that never returns.
  \<open>MoveCategory_update\<close> is its last block, \<^verbatim>\<open>// Update category's parent\<close>.
\<close>

definition MoveCategory_update :: "Category \<Rightarrow> uuid option \<Rightarrow> world \<Rightarrow> error option \<times> world" where
  "MoveCategory_update category newParentID w =
     (case categoryRepository_Update (category\<lparr>Cat_ParentID := newParentID\<rparr>) w of
        (Some e, w1) \<Rightarrow> (Some (WithCause ErrDatabaseOperation e), w1)
      | (None, w1) \<Rightarrow> (None, w1))"

definition MoveCategory :: "uuid \<Rightarrow> uuid option \<Rightarrow> world \<Rightarrow> (error option \<times> world) option" where
  "MoveCategory categoryID newParentID w =
     (case categoryRepository_GetByID categoryID w of
        (Inl e, w1) \<Rightarrow> Some (Some (WithCause ErrDatabaseOperation e), w1)
      | (Inr None, w1) \<Rightarrow> Some (Some ErrCategoryNotFound, w1)
      | (Inr (Some category), w1) \<Rightarrow>
          (case newParentID of
             None \<Rightarrow> Some (MoveCategory_update category newParentID w1)
           | Some parentID \<Rightarrow>
               (case categoryRepository_GetByID parentID w1 of
                  (Inl e, w2) \<Rightarrow> Some (Some (WithCause ErrDatabaseOperation e), w2)
                | (Inr None, w2) \<Rightarrow> Some (Some ErrCategoryNotFound, w2)
                | (Inr (Some parent), w2) \<Rightarrow>
                    if Cat_UserID parent \<noteq> Cat_UserID category then Some (Some ErrUnauthorized, w2)
                    else (case wouldCreateCircularReference categoryID parentID w2 of
                            None \<Rightarrow> None
                          | Some (True, w3) \<Rightarrow> Some (Some ErrInvalidCategoryData, w3)
                          | Some (False, w3) \<Rightarrow>
                              Some (MoveCategory_update category newParentID w3)))))"

section \<open>The signed delta of the ledger, as specified\<close>

text \<open>
  The specification's delta of a transaction on its card: the amount for an income, the
  negated amount for an expense and for a transfer.
\<close>

definition signedDelta :: "string \<Rightarrow> int64 \<Rightarrow> int64" where
  "signedDelta ty amount =
     (if ty = ''income'' then amount
      else if ty = ''expense'' then - amount
      else if ty = ''transfer'' then - amount
      else 0)"

section \<open>The category hierarchy, as specified\<close>

text \<open>
  The invariant of the specification: the parent chain of a category terminates, at a root
  or at a reference to a category that is not stored.  \<open>ancestor_or_self d i a\<close> says that
  the chain from \<open>i\<close> passes through \<open>a\<close>.
\<close>

definition category_of :: "database \<Rightarrow> uuid \<Rightarrow> Category option" where
  "category_of d i = find (\<lambda>c. Cat_ID c = i) (categories d)"

inductive chain_terminates :: "database \<Rightarrow> uuid \<Rightarrow> bool" for d :: database where
  absent: "category_of d i = None \<Longrightarrow> chain_terminates d i"
| root: "category_of d i = Some c \<Longrightarrow> Cat_ParentID c = None \<Longrightarrow> chain_terminates d i"
| child: "category_of d i = Some c \<Longrightarrow> Cat_ParentID c = Some p \<Longrightarrow> chain_terminates d p
          \<Longrightarrow> chain_terminates d i"

inductive ancestor_or_self :: "database \<Rightarrow> uuid \<Rightarrow> uuid \<Rightarrow> bool" for d :: database where
  self: "ancestor_or_self d i i"
| up: "category_of d i = Some c \<Longrightarrow> Cat_ParentID c = Some p \<Longrightarrow> ancestor_or_self d p a
       \<Longrightarrow> ancestor_or_self d i a"

section \<open>Concrete inputs\<close>

text \<open>
  A user 7 with a manual card 1 holding 1000 and a provider card 2 for the account
  \<^verbatim>\<open>acc1\<close> holding 5000, both in currency 980; statement items of the provider; worlds
  without pending storage failures.
\<close>

definition user_7 :: User where
  "user_7 = \<lparr> User_ID = 7, User_Email = ''u@example.com'', User_Name = ''u'' \<rparr>"

definition manual_card :: Card where
  "manual_card =
     \<lparr> Card_ID = 1, Card_UserID = 7, Card_CardName = ''cash'', Card_MaskedPan = [],
       Card_Balance = 1000, Card_CreditLimit = 0, Card_CurrencyCode = 980,
       Card_IsManual = True, Card_Type = [], Card_MonobankAccountID = [] \<rparr>"

definition provider_card :: Card where
  "provider_card =
     \<lparr> Card_ID = 2, Card_UserID = 7, Card_CardName = ''black (5375)'', Card_MaskedPan = ''5375'',
       Card_Balance = 5000, Card_CreditLimit = 0, Card_CurrencyCode = 980,
       Card_IsManual = False, Card_Type = ''black'', Card_MonobankAccountID = ''acc1'' \<rparr>"

definition statement_item :: "string \<Rightarrow> int64 \<Rightarrow> int64 \<Rightarrow> monobankTransaction" where
  "statement_item ident amount balance =
     \<lparr> mono_ID = ident, mono_Time = 1700000000, mono_Description = ''shop'', mono_MCC = 5411,
       mono_OriginalMCC = 5411, mono_Hold = False, mono_Amount = amount,
       mono_OperationAmount = amount, mono_CurrencyCode = 980, mono_CommissionRate = 0,
       mono_CashbackAmount = 0, mono_Balance = balance, mono_Comment = [], mono_ReceiptID = [],
       mono_CounterEdrpou = [], mono_CounterIban = [], mono_CounterName = [] \<rparr>"

definition manual_transaction :: "uuid \<Rightarrow> string \<Rightarrow> int64 \<Rightarrow> Transaction" where
  "manual_transaction ident ty amount =
     \<lparr> Tx_ID = ident, Tx_CardID = 1, Tx_UserID = 7, Tx_CategoryID = None, Tx_Amount = amount,
       Tx_OperationAmount = 0, Tx_CurrencyCode = 980, Tx_OperationCurrencyCode = 0,
       Tx_Type = ty, Tx_Description = ''lunch'', Tx_MCC = 0, Tx_CommissionRate = 0,
       Tx_CashbackAmount = 0, Tx_BalanceAfter = 0, Tx_Hold = False,
       Tx_TransactionDate = 1700000000000000000, Tx_MonobankID = [], Tx_Comment = [] \<rparr>"

definition base_database :: database where
  "base_database =
     \<lparr> users = [user_7], cards = [manual_card, provider_card], transactions = [],
       deleted_transactions = [], categories = [], integrations = [] \<rparr>"

definition quiet :: "database \<Rightarrow> world" where
  "quiet d = \<lparr> db = d, faults = [], logs = [] \<rparr>"

text \<open>A database in which the statement item \<^verbatim>\<open>m1\<close> has been stored as transaction 5.\<close>

definition imported_transaction :: Transaction where
  "imported_transaction =
     (convertMonobankTransaction (statement_item ''m1'' (- 250) 4750) provider_card)\<lparr>Tx_ID := 5\<rparr>"

definition imported_database :: database where
  "imported_database = base_database\<lparr>transactions := [imported_transaction]\<rparr>"

text \<open>
  A provider that answers the statement request for \<^verbatim>\<open>acc1\<close> with the item \<^verbatim>\<open>m1\<close> and
  every other request with status 500; a second provider card, for the account \<^verbatim>\<open>acc0\<close>;
  the integration of user 7.
\<close>

definition provider_env :: environment where
  "provider_env =
     \<lparr> env_lastMonth = 1697000000000000000,
       env_NewRequest = (\<lambda>account from. True),
       env_Do = (\<lambda>account from token.
                  if account = ''acc1''
                  then Response 200 (Some [statement_item ''m1'' (- 250) 4750])
                  else Response 500 None) \<rparr>"

definition failing_card :: Card where
  "failing_card =
     \<lparr> Card_ID = 3, Card_UserID = 7, Card_CardName = ''white (4149)'', Card_MaskedPan = ''4149'',
       Card_Balance = 0, Card_CreditLimit = 0, Card_CurrencyCode = 980,
       Card_IsManual = False, Card_Type = ''white'', Card_MonobankAccountID = ''acc0'' \<rparr>"

definition integration_7 :: MonobankIntegration where
  "integration_7 =
     \<lparr> Int_ID = 9, Int_UserID = 7, Int_ClientID = ''client'', Int_Token = ''token'',
       Int_WebhookURL = [], Int_Permissions = ''psf'' \<rparr>"

definition sync_database :: database where
  "sync_database =
     base_database\<lparr>cards := [failing_card, provider_card], integrations := [integration_7]\<rparr>"

text \<open>
  Categories of user 7: a root \<^verbatim>\<open>A\<close>, a chain \<^verbatim>\<open>A\<close>, \<^verbatim>\<open>B\<close>, \<^verbatim>\<open>C\<close> with an unrelated root
  \<^verbatim>\<open>D\<close>, and a category \<^verbatim>\<open>X\<close> that names itself as its parent.
\<close>

definition category :: "uuid \<Rightarrow> string \<Rightarrow> uuid option \<Rightarrow> Category" where
  "category ident name parent =
     \<lparr> Cat_ID = ident, Cat_Name = name, Cat_ParentID = parent, Cat_UserID = 7,
       Cat_Type = ''expense'' \<rparr>"

definition chain_database :: database where
  "chain_database =
     base_database\<lparr>categories :=
       [category 11 ''A'' None, category 12 ''B'' (Some 11), category 13 ''C'' (Some 12),
        category 14 ''D'' None]\<rparr>"

definition root_database :: database where
  "root_database = base_database\<lparr>categories := [category 11 ''A'' None]\<rparr>"

definition looping_database :: database where
  "looping_database =
     base_database\<lparr>categories := [category 11 ''A'' None, category 15 ''X'' (Some 15)]\<rparr>"

text \<open>
  The manual card with a credit limit of 2: holding 0, and overdrawn to its limit by an
  expense of 2 that is stored as transaction 1.
\<close>

definition credit_card :: Card where
  "credit_card = manual_card\<lparr>Card_Balance := 0, Card_CreditLimit := 2\<rparr>"

definition credit_database :: database where
  "credit_database = base_database\<lparr>cards := [credit_card, provider_card]\<rparr>"

definition overdrawn_card :: Card where
  "overdrawn_card = credit_card\<lparr>Card_Balance := - 2\<rparr>"

definition overdrawn_database :: database where
  "overdrawn_database =
     credit_database
       \<lparr>transactions := [(manual_transaction 1 ''expense'' 2)\<lparr>Tx_BalanceAfter := - 2\<rparr>],
        cards := [overdrawn_card, provider_card]\<rparr>"

section \<open>Properties of the storage layer\<close>

lemma exec_preserves: "exec w = (f, w') \<Longrightarrow> db w' = db w \<and> logs w' = logs w"
  by (auto simp: exec_def split: list.splits)

lemma exec_no_fault: "faults w = [] \<Longrightarrow> exec w = (False, w)"
  by (simp add: exec_def)

lemma query_preserves: "query f w = (r, w') \<Longrightarrow> db w' = db w \<and> logs w' = logs w"
  by (auto simp: query_def split: prod.splits if_splits dest: exec_preserves)

lemma query_result: "query f w = (Inr x, w') \<Longrightarrow> x = f (db w)"
  by (auto simp: query_def split: prod.splits if_splits dest: exec_preserves)

lemma query_no_fault: "faults w = [] \<Longrightarrow> query f w = (Inr (f (db w)), w)"
  by (simp add: query_def exec_no_fault)

lemma statement_no_fault:
  "faults w = [] \<Longrightarrow>
   statement g w = (case g (db w) of Inl e \<Rightarrow> (Some e, w) | Inr d \<Rightarrow> (None, w\<lparr>db := d\<rparr>))"
  by (simp add: statement_def exec_no_fault)

lemma statement_error: "statement g w = (Some e, w') \<Longrightarrow> db w' = db w \<and> logs w' = logs w"
  by (auto simp: statement_def split: prod.splits if_splits sum.splits dest: exec_preserves)

lemma statement_success:
  "statement g w = (None, w') \<Longrightarrow> g (db w) = Inr (db w') \<and> logs w' = logs w"
  by (auto simp: statement_def split: prod.splits if_splits sum.splits dest: exec_preserves)

text \<open>A database transaction that reports an error has rolled the tables back.\<close>

lemma gorm_Transaction_error: "gorm_Transaction body w = (Some e, w') \<Longrightarrow> db w' = db w"
  by (auto simp: gorm_Transaction_def split: prod.splits if_splits option.splits
      dest: exec_preserves)

lemma gorm_Transaction_success:
  "gorm_Transaction body w = (None, w') \<Longrightarrow>
   \<exists>w1 w2. db w1 = db w \<and> body w1 = (None, w2) \<and> db w' = db w2"
  by (auto simp: gorm_Transaction_def split: prod.splits if_splits option.splits
      dest: exec_preserves)

section \<open>Conversion of statement items\<close>

lemma int64_min_iff: "(n::int64) = - 9223372036854775808 \<longleftrightarrow> sint n = - 9223372036854775808"
proof
  assume "n = - 9223372036854775808"
  then show "sint n = - 9223372036854775808" by simp
next
  assume a: "sint n = - 9223372036854775808"
  have "sint (- 9223372036854775808 :: int64) = - 9223372036854775808" by simp
  with a have "sint n = sint (- 9223372036854775808 :: int64)" by simp
  then show "n = - 9223372036854775808" by (simp only: signed_word_eqI)
qed

text \<open>Away from the least \<^verbatim>\<open>int64\<close>, \<^verbatim>\<open>abs\<close> is the absolute value.\<close>

lemma sint_abs_int64:
  assumes "n \<noteq> - 9223372036854775808"
  shows "sint (abs_int64 n) = \<bar>sint n\<bar>"
proof -
  have lo: "- 9223372036854775808 \<le> sint n" using sint_ge [of n] by simp
  have hi: "sint n < 9223372036854775808" using sint_lt [of n] by simp
  have ne: "sint n \<noteq> - 9223372036854775808" using assms int64_min_iff by blast
  have neg: "sint (- n) = - sint n"
    using lo hi ne by (simp add: sint_word_minus signed_take_bit_int_eq_self)
  show ?thesis
    using neg by (simp add: abs_int64_def word_sless_alt)
qed

lemma abs_int64_least: "abs_int64 (- 9223372036854775808) = - 9223372036854775808"
  by (simp add: abs_int64_def word_sless_alt)

lemma convert_type_valid: "valid_type (Tx_Type (convertMonobankTransaction m c))"
  by (simp add: convertMonobankTransaction_def valid_type_def)

text \<open>
  C7, as the specification states it: the type of an ingested transaction is
  \<^verbatim>\<open>expense\<close> for a negative provider amount and \<^verbatim>\<open>income\<close> otherwise.  A statement
  item with the amount 0 refutes this: it is converted to an \<^verbatim>\<open>expense\<close>.
\<close>

theorem C7_zero_amount_counterexample:
  "Tx_Type (convertMonobankTransaction (statement_item ''m0'' 0 5000) provider_card)
   \<noteq> (if mono_Amount (statement_item ''m0'' 0 5000) <s 0 then ''expense'' else ''income'')"
  by (simp add: convertMonobankTransaction_def statement_item_def word_sless_alt)

text \<open>
  C7, amended: for every statement item, whether polled or received by webhook, the row
  that the insert of the converted item appends has the type \<^verbatim>\<open>income\<close> when the
  provider's amount is strictly positive and \<^verbatim>\<open>expense\<close> otherwise (so also for the amount
  0), never \<^verbatim>\<open>transfer\<close>; its balance-after is the provider's balance field; and its
  amount is the absolute value of the provider's amount, for every amount but the least
  \<^verbatim>\<open>int64\<close>.
\<close>

theorem C7_stored_conversion:
  assumes "insert_transaction (convertMonobankTransaction m c) d = Inr d'"
  shows "\<exists>t. transactions d' = transactions d @ [t]
           \<and> Tx_Type t = (if 0 <s mono_Amount m then ''income'' else ''expense'')
           \<and> Tx_Type t \<noteq> ''transfer''
           \<and> Tx_BalanceAfter t = mono_Balance m
           \<and> Tx_Amount t = abs_int64 (mono_Amount m)
           \<and> (mono_Amount m \<noteq> - 9223372036854775808
                \<longrightarrow> sint (Tx_Amount t) = \<bar>sint (mono_Amount m)\<bar>)"
proof -
  let ?t = "convertMonobankTransaction m c"
  have id0: "Tx_ID ?t = uuid_Nil" by (simp add: convertMonobankTransaction_def)
  have d': "d' = d\<lparr>transactions :=
                    transactions d @ [?t\<lparr>Tx_ID := fresh_uuid (transaction_keys d)\<rparr>]\<rparr>"
    using assms id0 convert_type_valid [of m c] by (simp add: insert_transaction_def)
  let ?row = "?t\<lparr>Tx_ID := fresh_uuid (transaction_keys d)\<rparr>"
  have 1: "transactions d' = transactions d @ [?row]" using d' by simp
  have 2: "Tx_Type ?row = (if 0 <s mono_Amount m then ''income'' else ''expense'')"
    by (simp add: convertMonobankTransaction_def)
  have 3: "Tx_Type ?row \<noteq> ''transfer''" using 2 by simp
  have 4: "Tx_BalanceAfter ?row = mono_Balance m" by (simp add: convertMonobankTransaction_def)
  have 5: "Tx_Amount ?row = abs_int64 (mono_Amount m)" by (simp add: convertMonobankTransaction_def)
  have 6: "mono_Amount m \<noteq> - 9223372036854775808
             \<longrightarrow> sint (Tx_Amount ?row) = \<bar>sint (mono_Amount m)\<bar>"
    using 5 sint_abs_int64 by simp
  from 1 2 3 4 5 6 show ?thesis by blast
qed

theorem C7_stored_conversion_witness:
  "insert_transaction
     (convertMonobankTransaction (statement_item ''m1'' (- 250) 4750) provider_card) base_database
   = Inr (base_database\<lparr>transactions :=
            [(convertMonobankTransaction (statement_item ''m1'' (- 250) 4750) provider_card)
               \<lparr>Tx_ID := 1\<rparr>]\<rparr>)
   \<and> (\<exists>t. transactions (base_database\<lparr>transactions :=
            [(convertMonobankTransaction (statement_item ''m1'' (- 250) 4750) provider_card)
               \<lparr>Tx_ID := 1\<rparr>]\<rparr>) = transactions base_database @ [t]
          \<and> Tx_Type t = ''expense'' \<and> Tx_BalanceAfter t = 4750 \<and> sint (Tx_Amount t) = 250)"
proof -
  let ?t = "convertMonobankTransaction (statement_item ''m1'' (- 250) 4750) provider_card"
  have h: "insert_transaction ?t base_database
           = Inr (base_database\<lparr>transactions := [?t\<lparr>Tx_ID := 1\<rparr>]\<rparr>)"
    by (simp add: insert_transaction_def transaction_keys_def convertMonobankTransaction_def
        valid_type_def base_database_def fresh_uuid_def uuid_Nil_def)
  show ?thesis
    using h C7_stored_conversion [OF h]
    by (auto simp: statement_item_def word_sless_alt)
qed

section \<open>Webhooks of unknown type\<close>

lemma log_append_db: "db (log_append e w) = db w"
  by (simp add: log_append_def)

lemma HandleWebhook_unknown_type:
  "ty \<noteq> ''StatementItem'' \<Longrightarrow>
   HandleWebhook R (Envelope ty dat) w
   = (None, log_append (Warnw ''Unknown webhook type'' [(''type'', LStr ty)]) w)"
  by (simp add: HandleWebhook_def)

text \<open>
  C9: given a well-formed envelope whose type is not \<^verbatim>\<open>StatementItem\<close>,
  \<^verbatim>\<open>HandleWebhook\<close> logs the unknown type and returns success without touching the
  tables.  \<^verbatim>\<open>MonobankService.HandleWebhook\<close> does so, for every such type
  (\<open>HandleWebhook_unknown_type\<close>).  The repository's other implementation,
  \<^verbatim>\<open>monobankService.HandleWebhook\<close> under \<^verbatim>\<open>backend/app\<close>, writes the same log entry
  and then returns an error.  Both are evaluated here for the type \<^verbatim>\<open>Ping\<close>.
\<close>

theorem C9_unknown_webhook_type:
  "HandleWebhook R (Envelope ''Ping'' dat) w
     = (None, log_append (Warnw ''Unknown webhook type'' [(''type'', LStr ''Ping'')]) w)
   \<and> app_HandleWebhook R (Envelope ''Ping'' dat) w
     = (Some (Errorf ''unknown webhook type: Ping''),
        log_append (Warnw ''Unknown webhook type'' [(''type'', LStr ''Ping'')]) w)"
  by (simp add: HandleWebhook_def app_HandleWebhook_def)

section \<open>The ledger\<close>

lemma cardRepository_GetByID_preserves:
  "cardRepository_GetByID i w = (r, w') \<Longrightarrow> db w' = db w"
  by (auto simp: cardRepository_GetByID_def dest: query_preserves)

lemma cardRepository_GetByID_result:
  "cardRepository_GetByID i w = (Inr x, w') \<Longrightarrow> x = find (\<lambda>c. Card_ID c = i) (cards (db w))"
  by (auto simp: cardRepository_GetByID_def dest: query_result)

lemma transactionRepository_GetByID_preserves:
  "transactionRepository_GetByID i w = (r, w') \<Longrightarrow> db w' = db w"
  by (auto simp: transactionRepository_GetByID_def dest: query_preserves)

lemma transactionRepository_GetByID_result:
  "transactionRepository_GetByID i w = (Inr x, w') \<Longrightarrow>
   x = find (\<lambda>t. Tx_ID t = i) (transactions (db w))"
  by (auto simp: transactionRepository_GetByID_def dest: query_result)

lemma categoryRepository_GetByID_preserves:
  "categoryRepository_GetByID i w = (r, w') \<Longrightarrow> db w' = db w"
  by (auto simp: categoryRepository_GetByID_def dest: query_preserves)

lemma verifyCategory_preserves: "verifyCategory userID t w = (r, w') \<Longrightarrow> db w' = db w"
  by (auto simp: verifyCategory_def split: option.splits prod.splits sum.splits if_splits
      dest: categoryRepository_GetByID_preserves)

lemma insert_transaction_shape:
  assumes "insert_transaction t d = Inr d1"
  shows "\<exists>i. d1 = d\<lparr>transactions := transactions d @ [t\<lparr>Tx_ID := i\<rparr>]\<rparr>"
proof (cases "Tx_ID t = uuid_Nil")
  case True
  with assms show ?thesis
    by (auto simp: insert_transaction_def split: if_splits)
next
  case False
  with assms have "d1 = d\<lparr>transactions := transactions d @ [t]\<rparr>"
    by (auto simp: insert_transaction_def split: if_splits)
  then have "d1 = d\<lparr>transactions := transactions d @ [t\<lparr>Tx_ID := Tx_ID t\<rparr>]\<rparr>" by simp
  then show ?thesis by blast
qed

lemma repo_balance:
  "(if ty = ''income'' then b + a
    else if ty = ''expense'' then b - a
    else if ty = ''transfer'' then b - a
    else b) = b + signedDelta ty a"
  by (auto simp: signedDelta_def)

lemma transactionRepository_Create_error:
  "transactionRepository_Create t w = (Some e, w') \<Longrightarrow> db w' = db w"
  unfolding transactionRepository_Create_def by (rule gorm_Transaction_error)

lemma transactionRepository_Create_success:
  assumes "transactionRepository_Create t w = (None, w')"
  shows "\<exists>i c. find (\<lambda>c. Card_ID c = Tx_CardID t) (cards (db w)) = Some c
           \<and> db w' = (db w)\<lparr>transactions := transactions (db w) @ [t\<lparr>Tx_ID := i\<rparr>],
                             cards := map (\<lambda>x. if Card_ID x = Tx_CardID t
                                 then c\<lparr>Card_Balance :=
                                   Card_Balance c + signedDelta (Tx_Type t) (Tx_Amount t)\<rparr>
                                 else x) (cards (db w))\<rparr>"
proof -
  from assms obtain w1 w2 where w1: "db w1 = db w"
    and body: "(case statement (insert_transaction t) w1 of
         (Some e, tx1) \<Rightarrow> (Some e, tx1)
       | (None, tx1) \<Rightarrow>
           (case query (\<lambda>d. find (\<lambda>c. Card_ID c = Tx_CardID t) (cards d)) tx1 of
              (Inl e, tx2) \<Rightarrow> (Some e, tx2)
            | (Inr None, tx2) \<Rightarrow> (Some ErrRecordNotFound, tx2)
            | (Inr (Some c), tx2) \<Rightarrow>
                (let balance =
                       (if Tx_Type t = ''income'' then Card_Balance c + Tx_Amount t
                        else if Tx_Type t = ''expense'' then Card_Balance c - Tx_Amount t
                        else if Tx_Type t = ''transfer'' then Card_Balance c - Tx_Amount t
                        else Card_Balance c)
                 in statement (save_card (c\<lparr>Card_Balance := balance\<rparr>)) tx2))) = (None, w2)"
    and w2: "db w' = db w2"
    unfolding transactionRepository_Create_def
    by (drule_tac gorm_Transaction_success) blast
  from body obtain tx1 where s1: "statement (insert_transaction t) w1 = (None, tx1)"
    by (auto split: prod.splits option.splits)
  from body s1 obtain c tx2 where
    q: "query (\<lambda>d. find (\<lambda>c. Card_ID c = Tx_CardID t) (cards d)) tx1 = (Inr (Some c), tx2)"
    by (auto split: prod.splits option.splits sum.splits)
  let ?c' = "c\<lparr>Card_Balance := Card_Balance c + signedDelta (Tx_Type t) (Tx_Amount t)\<rparr>"
  from body s1 q have s2: "statement (save_card ?c') tx2 = (None, w2)"
    by (simp add: Let_def repo_balance)
  from s1 have ins: "insert_transaction t (db w1) = Inr (db tx1)"
    by (auto dest: statement_success)
  then obtain i where tx1: "db tx1 = (db w)\<lparr>transactions := transactions (db w) @ [t\<lparr>Tx_ID := i\<rparr>]\<rparr>"
    using insert_transaction_shape w1 by metis
  from q have tx2: "db tx2 = db tx1" by (auto dest: query_preserves)
  from q have "Some c = find (\<lambda>c. Card_ID c = Tx_CardID t) (cards (db tx1))"
    by (auto dest: query_result)
  with tx1 have fc: "find (\<lambda>c. Card_ID c = Tx_CardID t) (cards (db w)) = Some c" by simp
  then have cid: "Card_ID c = Tx_CardID t" by (auto simp: find_Some_iff)
  from s2 have "save_card ?c' (db tx2) = Inr (db w2)" by (auto dest: statement_success)
  then have "db w2 = (db tx2)\<lparr>cards := map (\<lambda>x. if Card_ID x = Card_ID ?c' then ?c' else x)
                                          (cards (db tx2))\<rparr>"
    by (simp add: save_card_def)
  with tx2 tx1 cid w2 have
    "db w' = (db w)\<lparr>transactions := transactions (db w) @ [t\<lparr>Tx_ID := i\<rparr>],
                      cards := map (\<lambda>x. if Card_ID x = Tx_CardID t then ?c' else x) (cards (db w))\<rparr>"
    by simp
  with fc show ?thesis by blast
qed


lemma CreateTransaction_error:
  assumes "CreateTransaction now userID t w = (Some e, w')"
  shows "db w' = db w"
  using assms unfolding CreateTransaction_def
  by (auto simp: Let_def split: prod.splits sum.splits option.splits if_splits
      dest!: cardRepository_GetByID_preserves verifyCategory_preserves
             transactionRepository_Create_error)

lemma validated_balance:
  assumes "validateTransaction t c = None"
  shows "(if Tx_Type t = ''expense'' then Card_Balance c - Tx_Amount t
          else if Tx_Type t = ''income'' then Card_Balance c + Tx_Amount t
          else if Tx_Type t = ''transfer'' then Card_Balance c - Tx_Amount t
          else Card_Balance c) = Card_Balance c + signedDelta (Tx_Type t) (Tx_Amount t)"
  using assms by (auto simp: validateTransaction_def signedDelta_def split: if_splits)

lemma CreateTransaction_success:
  assumes "CreateTransaction now userID t w = (None, w')"
  shows "\<exists>c row. find (\<lambda>c. Card_ID c = Tx_CardID t) (cards (db w)) = Some c
           \<and> Card_UserID c = userID
           \<and> validateTransaction t c = None
           \<and> Tx_Type row = Tx_Type t \<and> Tx_Amount row = Tx_Amount t
           \<and> Tx_CardID row = Tx_CardID t \<and> Tx_UserID row = userID
           \<and> Tx_BalanceAfter row = Card_Balance c + signedDelta (Tx_Type t) (Tx_Amount t)
           \<and> db w' = (db w)\<lparr>transactions := transactions (db w) @ [row],
                cards := map (\<lambda>x. if Card_ID x = Tx_CardID t
                     then c\<lparr>Card_Balance := Card_Balance c + signedDelta (Tx_Type t) (Tx_Amount t)\<rparr>
                     else x) (cards (db w))\<rparr>"
proof -
  from assms obtain c w1 where g: "cardRepository_GetByID (Tx_CardID t) w = (Inr (Some c), w1)"
    unfolding CreateTransaction_def
    by (auto split: prod.splits sum.splits option.splits if_splits)
  from assms g have own: "Card_UserID c = userID"
    unfolding CreateTransaction_def by (auto split: if_splits)
  from assms g own obtain w2 where v: "verifyCategory userID t w1 = (None, w2)"
    unfolding CreateTransaction_def
    by (auto split: prod.splits option.splits)
  from assms g own v have val: "validateTransaction t c = None"
    unfolding CreateTransaction_def
    by (auto split: option.splits)
  let ?nb = "Card_Balance c + signedDelta (Tx_Type t) (Tx_Amount t)"
  let ?t1 = "t\<lparr>Tx_UserID := userID,
               Tx_TransactionDate := (if IsZero (Tx_TransactionDate t) then now
                                      else Tx_TransactionDate t),
               Tx_BalanceAfter := ?nb\<rparr>"
  from assms g own v val have cr: "transactionRepository_Create ?t1 w2 = (None, w')"
    unfolding CreateTransaction_def
    by (auto simp: Let_def signedDelta_def split: prod.splits option.splits if_splits)
  have d1: "db w1 = db w" using g by (rule cardRepository_GetByID_preserves)
  have d2: "db w2 = db w" using v d1 by (auto dest: verifyCategory_preserves)
  have fc: "find (\<lambda>c. Card_ID c = Tx_CardID t) (cards (db w)) = Some c"
    using g by (auto dest: cardRepository_GetByID_result)
  from transactionRepository_Create_success [OF cr] obtain i c' where
    fc': "find (\<lambda>c. Card_ID c = Tx_CardID ?t1) (cards (db w2)) = Some c'"
    and dw: "db w' = (db w2)\<lparr>transactions := transactions (db w2) @ [?t1\<lparr>Tx_ID := i\<rparr>],
                cards := map (\<lambda>x. if Card_ID x = Tx_CardID ?t1
                     then c'\<lparr>Card_Balance :=
                            Card_Balance c' + signedDelta (Tx_Type ?t1) (Tx_Amount ?t1)\<rparr>
                     else x) (cards (db w2))\<rparr>"
    by blast
  from fc' fc d2 have cc: "c' = c" by simp
  let ?row = "?t1\<lparr>Tx_ID := i\<rparr>"
  have "db w' = (db w)\<lparr>transactions := transactions (db w) @ [?row],
                cards := map (\<lambda>x. if Card_ID x = Tx_CardID t
                     then c\<lparr>Card_Balance := ?nb\<rparr> else x) (cards (db w))\<rparr>"
    using dw cc d2 by simp
  moreover have "Tx_Type ?row = Tx_Type t \<and> Tx_Amount ?row = Tx_Amount t
           \<and> Tx_CardID ?row = Tx_CardID t \<and> Tx_UserID ?row = userID
           \<and> Tx_BalanceAfter ?row = ?nb" by simp
  ultimately show ?thesis using fc own val by blast
qed

text \<open>
  Whatever \<^verbatim>\<open>CreateTransaction\<close> returns, either it reports an error and the tables are
  as before, so that neither the transaction nor a balance change is persisted, or it
  succeeds, and then exactly one row has been appended, with the type, amount and card of
  the request and with a balance-after that is the \<^verbatim>\<open>int64\<close> sum of the card's balance
  and the signed delta (the amount for an income, the negated amount for an expense and
  for a transfer), and the card's balance has become that same value; nothing else has
  changed.
\<close>

lemma CreateTransaction_is_atomic:
  assumes "CreateTransaction now userID t w = (r, w')"
  shows "(r \<noteq> None \<longrightarrow> db w' = db w)
       \<and> (r = None \<longrightarrow>
            (\<exists>c row. find (\<lambda>c. Card_ID c = Tx_CardID t) (cards (db w)) = Some c
               \<and> Tx_Type row = Tx_Type t \<and> Tx_Amount row = Tx_Amount t
               \<and> Tx_CardID row = Tx_CardID t
               \<and> Tx_BalanceAfter row = Card_Balance c + signedDelta (Tx_Type t) (Tx_Amount t)
               \<and> signedDelta (Tx_Type t) (Tx_Amount t)
                   = (if Tx_Type t = ''income'' then Tx_Amount t else - Tx_Amount t)
               \<and> db w' = (db w)\<lparr>transactions := transactions (db w) @ [row],
                    cards := map (\<lambda>x. if Card_ID x = Tx_CardID t
                         then c\<lparr>Card_Balance :=
                                  Card_Balance c + signedDelta (Tx_Type t) (Tx_Amount t)\<rparr>
                         else x) (cards (db w))\<rparr>))"
proof (cases r)
  case None
  with assms have "CreateTransaction now userID t w = (None, w')" by simp
  from CreateTransaction_success [OF this] obtain c row where
    *: "find (\<lambda>c. Card_ID c = Tx_CardID t) (cards (db w)) = Some c"
       "validateTransaction t c = None"
       "Tx_Type row = Tx_Type t" "Tx_Amount row = Tx_Amount t" "Tx_CardID row = Tx_CardID t"
       "Tx_BalanceAfter row = Card_Balance c + signedDelta (Tx_Type t) (Tx_Amount t)"
       "db w' = (db w)\<lparr>transactions := transactions (db w) @ [row],
                cards := map (\<lambda>x. if Card_ID x = Tx_CardID t
                     then c\<lparr>Card_Balance := Card_Balance c + signedDelta (Tx_Type t) (Tx_Amount t)\<rparr>
                     else x) (cards (db w))\<rparr>"
    by blast
  from *(2) have "signedDelta (Tx_Type t) (Tx_Amount t)
                   = (if Tx_Type t = ''income'' then Tx_Amount t else - Tx_Amount t)"
    by (auto simp: validateTransaction_def signedDelta_def split: if_splits)
  with * None show ?thesis by blast
next
  case (Some e)
  with assms have "db w' = db w" by (auto dest: CreateTransaction_error)
  with Some show ?thesis by simp
qed

text \<open>
  Where the sum of balance and delta is representable and the credit limit is not the least
  \<^verbatim>\<open>int64\<close>, the comparison the service makes is the comparison of the integers.
\<close>

lemma sint_add_in_range:
  fixes b d :: int64
  assumes "- 9223372036854775808 \<le> sint b + sint d" "sint b + sint d < 9223372036854775808"
  shows "sint (b + d) = sint b + sint d"
  using assms by (simp add: sint_word_ariths signed_take_bit_int_eq_self)

lemma sint_neg_in_range:
  fixes l :: int64
  assumes "l \<noteq> - 9223372036854775808"
  shows "sint (- l) = - sint l"
proof -
  have lo: "- 9223372036854775808 \<le> sint l" using sint_ge [of l] by simp
  have hi: "sint l < 9223372036854775808" using sint_lt [of l] by simp
  have ne: "sint l \<noteq> - 9223372036854775808" using assms int64_min_iff by blast
  show ?thesis
    using lo hi ne by (simp add: sint_word_minus signed_take_bit_int_eq_self)
qed

lemma credit_limit_check_on_integers:
  fixes b d l :: int64
  assumes "- 9223372036854775808 \<le> sint b + sint d" "sint b + sint d < 9223372036854775808"
    and "l \<noteq> - 9223372036854775808"
  shows "(b + d <s - l) \<longleftrightarrow> (sint b + sint d < - sint l)"
  using sint_add_in_range [OF assms(1,2)] sint_neg_in_range [OF assms(3)]
  by (simp add: word_sless_alt)

text \<open>
  When the card is found and owned by the caller, the category block and the validation
  pass, and the \<^verbatim>\<open>int64\<close> sum of the card's balance and the signed delta is below the
  negated credit limit in the signed order, \<^verbatim>\<open>CreateTransaction\<close> returns
  \<^verbatim>\<open>ErrInsufficientFunds\<close> and the tables are unchanged.
\<close>

lemma insufficient_funds_rejected:
  assumes "cardRepository_GetByID (Tx_CardID t) w = (Inr (Some c), w1)"
    and "Card_UserID c = userID"
    and "verifyCategory userID t w1 = (None, w2)"
    and "validateTransaction t c = None"
    and "Card_Balance c + signedDelta (Tx_Type t) (Tx_Amount t) <s - Card_CreditLimit c"
  shows "CreateTransaction now userID t w = (Some ErrInsufficientFunds, w2) \<and> db w2 = db w"
proof -
  have "db w1 = db w" using assms(1) by (rule cardRepository_GetByID_preserves)
  moreover have "db w2 = db w1" using assms(3) by (rule verifyCategory_preserves)
  moreover have "CreateTransaction now userID t w = (Some ErrInsufficientFunds, w2)"
  proof -
    from assms(4) have "Tx_Type t = ''expense'' \<or> Tx_Type t = ''income'' \<or> Tx_Type t = ''transfer''"
      by (auto simp: validateTransaction_def split: if_splits)
    then show ?thesis
    proof (elim disjE)
      assume "Tx_Type t = ''expense''"
      then show ?thesis
        using assms unfolding CreateTransaction_def by (simp add: Let_def signedDelta_def)
    next
      assume "Tx_Type t = ''income''"
      then show ?thesis
        using assms unfolding CreateTransaction_def by (simp add: Let_def signedDelta_def)
    next
      assume "Tx_Type t = ''transfer''"
      then show ?thesis
        using assms unfolding CreateTransaction_def by (simp add: Let_def signedDelta_def)
    qed
  qed
  ultimately show ?thesis by simp
qed


lemmas concrete_defs =
  quiet_def base_database_def manual_card_def provider_card_def user_7_def
  manual_transaction_def statement_item_def uuid_Nil_def

lemmas storage_defs =
  exec_def query_def statement_def gorm_Transaction_def
  cardRepository_GetByID_def categoryRepository_GetByID_def transactionRepository_GetByID_def
  insert_transaction_def transaction_keys_def save_card_def valid_type_def fresh_uuid_def

text \<open>
  The same with the inequality read on the integers, as the specification states it: it
  holds wherever the sum of balance and delta is an \<^verbatim>\<open>int64\<close> and the credit limit is not
  the least one.
\<close>

lemma insufficient_funds_rejected_in_range:
  assumes "cardRepository_GetByID (Tx_CardID t) w = (Inr (Some c), w1)"
    and "Card_UserID c = userID"
    and "verifyCategory userID t w1 = (None, w2)"
    and "validateTransaction t c = None"
    and "- 9223372036854775808
           \<le> sint (Card_Balance c) + sint (signedDelta (Tx_Type t) (Tx_Amount t))"
    and "sint (Card_Balance c) + sint (signedDelta (Tx_Type t) (Tx_Amount t))
           < 9223372036854775808"
    and "Card_CreditLimit c \<noteq> - 9223372036854775808"
    and "sint (Card_Balance c) + sint (signedDelta (Tx_Type t) (Tx_Amount t))
           < - sint (Card_CreditLimit c)"
  shows "CreateTransaction now userID t w = (Some ErrInsufficientFunds, w2) \<and> db w2 = db w"
proof -
  have "Card_Balance c + signedDelta (Tx_Type t) (Tx_Amount t) <s - Card_CreditLimit c"
    using credit_limit_check_on_integers [OF assms(5,6,7)] assms(8) by simp
  then show ?thesis
    by (rule insufficient_funds_rejected [OF assms(1,2,3,4)])
qed

text \<open>
  A successful call whose sum of balance and delta is an \<^verbatim>\<open>int64\<close> stores that sum, read
  on the integers, as the balance-after.
\<close>

lemma CreateTransaction_balance_in_range:
  assumes "CreateTransaction now userID t w = (None, w')"
    and "find (\<lambda>c. Card_ID c = Tx_CardID t) (cards (db w)) = Some c"
    and "- 9223372036854775808
           \<le> sint (Card_Balance c) + sint (signedDelta (Tx_Type t) (Tx_Amount t))"
    and "sint (Card_Balance c) + sint (signedDelta (Tx_Type t) (Tx_Amount t))
           < 9223372036854775808"
  shows "\<exists>row. transactions (db w') = transactions (db w) @ [row]
           \<and> sint (Tx_BalanceAfter row)
               = sint (Card_Balance c) + sint (signedDelta (Tx_Type t) (Tx_Amount t))"
proof -
  from CreateTransaction_success [OF assms(1)] obtain c' row where
    c': "find (\<lambda>c. Card_ID c = Tx_CardID t) (cards (db w)) = Some c'"
    and row: "Tx_BalanceAfter row = Card_Balance c' + signedDelta (Tx_Type t) (Tx_Amount t)"
    and d: "db w' = (db w)\<lparr>transactions := transactions (db w) @ [row],
                cards := map (\<lambda>x. if Card_ID x = Tx_CardID t
                     then c'\<lparr>Card_Balance := Card_Balance c' + signedDelta (Tx_Type t) (Tx_Amount t)\<rparr>
                     else x) (cards (db w))\<rparr>"
    by blast
  from c' assms(2) have cc: "c' = c" by simp
  have "transactions (db w') = transactions (db w) @ [row]" using d by simp
  moreover have "sint (Tx_BalanceAfter row)
      = sint (Card_Balance c) + sint (signedDelta (Tx_Type t) (Tx_Amount t))"
    using row cc sint_add_in_range [OF assms(3,4)] by simp
  ultimately show ?thesis by blast
qed

lemmas service_defs =
  CreateTransaction_def UpdateTransaction_def DeleteTransaction_def verifyCategory_def
  validateTransaction_def transactionRepository_Create_def transactionRepository_Update_def
  transactionRepository_Delete_def update_transaction_def delete_transaction_def
  IsZero_def zeroTime_def Let_def word_sle_eq word_sless_alt

lemmas overdrawn_defs =
  credit_database_def credit_card_def overdrawn_database_def overdrawn_card_def

text \<open>
  An expense of 100 on the card holding 1000 is stored with the balance-after 900 and
  brings the balance to 900; when the commit of the database transaction fails, the call
  reports an error and the tables are as before.
\<close>

lemma CreateTransaction_is_atomic_example:
  "CreateTransaction 0 7 (manual_transaction 0 ''expense'' 100) (quiet base_database)
     = (None, quiet (base_database
          \<lparr>transactions := [(manual_transaction 1 ''expense'' 100)\<lparr>Tx_BalanceAfter := 900\<rparr>],
           cards := [manual_card\<lparr>Card_Balance := 900\<rparr>, provider_card]\<rparr>))
   \<and> fst (CreateTransaction 0 7 (manual_transaction 0 ''expense'' 100)
            ((quiet base_database)\<lparr>faults := [False, False, False, False, True]\<rparr>)) \<noteq> None
   \<and> db (snd (CreateTransaction 0 7 (manual_transaction 0 ''expense'' 100)
                ((quiet base_database)\<lparr>faults := [False, False, False, False, True]\<rparr>)))
     = base_database"
proof -
  let ?t = "manual_transaction 0 ''expense'' 100"
  let ?w = "quiet base_database"
  have ok: "CreateTransaction 0 7 ?t ?w
     = (None, quiet (base_database
          \<lparr>transactions := [(manual_transaction 1 ''expense'' 100)\<lparr>Tx_BalanceAfter := 900\<rparr>],
           cards := [manual_card\<lparr>Card_Balance := 900\<rparr>, provider_card]\<rparr>))"
    by (simp add: service_defs concrete_defs storage_defs)
  let ?wf = "?w\<lparr>faults := [False, False, False, False, True]\<rparr>"
  let ?resf = "CreateTransaction 0 7 ?t ?wf"
  have bad: "fst ?resf \<noteq> None"
    by (simp add: service_defs concrete_defs storage_defs)
  have "?resf = (fst ?resf, snd ?resf)" by simp
  from CreateTransaction_is_atomic [OF this] bad have "db (snd ?resf) = db ?wf" by blast
  then have 3: "db (snd ?resf) = base_database" by (simp add: quiet_def)
  from ok bad 3 show ?thesis by blast
qed

text \<open>
  C1: for every call of \<^verbatim>\<open>CreateTransaction\<close> that passes the card, category and
  validation checks, the signed delta is the amount for an income and the negated amount
  for an expense and for a transfer, the stored transaction's balance-after equals the
  card's balance plus that delta, and the insert of the transaction and the update of the
  card's balance are one atomic unit.  The delta rule and the atomic unit hold
  (\<open>CreateTransaction_is_atomic\<close>), and so does the balance-after wherever the sum is an
  \<^verbatim>\<open>int64\<close> (\<open>CreateTransaction_balance_in_range\<close>).  But the service computes the new
  balance by an unchecked \<^verbatim>\<open>int64\<close> subtraction, and no step bounds the amount from above.
  Evaluated: on the card with credit limit 2, an expense of 2 brings the balance from 0 to
  -2; a further expense of 9223372036854775807 passes the validation and is stored with
  the balance-after 9223372036854775807, which also becomes the card's balance, whereas
  the balance plus the delta is -9223372036854775809.
\<close>

theorem C1_overflowing_expense_is_stored:
  "CreateTransaction 0 7 (manual_transaction 0 ''expense'' 2) (quiet credit_database)
     = (None, quiet overdrawn_database)
   \<and> validateTransaction (manual_transaction 0 ''expense'' 9223372036854775807) overdrawn_card
     = None
   \<and> CreateTransaction 0 7 (manual_transaction 0 ''expense'' 9223372036854775807)
       (quiet overdrawn_database)
     = (None, quiet (overdrawn_database
          \<lparr>transactions := transactions overdrawn_database
             @ [(manual_transaction 2 ''expense'' 9223372036854775807)
                  \<lparr>Tx_BalanceAfter := 9223372036854775807\<rparr>],
           cards := [overdrawn_card\<lparr>Card_Balance := 9223372036854775807\<rparr>, provider_card]\<rparr>))
   \<and> sint (Card_Balance overdrawn_card) + sint (signedDelta ''expense'' 9223372036854775807)
     = - 9223372036854775809"
proof -
  have 1: "CreateTransaction 0 7 (manual_transaction 0 ''expense'' 2) (quiet credit_database)
           = (None, quiet overdrawn_database)"
    by (simp add: service_defs concrete_defs storage_defs overdrawn_defs)
  have 2: "validateTransaction (manual_transaction 0 ''expense'' 9223372036854775807)
             overdrawn_card = None"
    by (simp add: validateTransaction_def concrete_defs overdrawn_defs word_sle_eq)
  have 3: "CreateTransaction 0 7 (manual_transaction 0 ''expense'' 9223372036854775807)
             (quiet overdrawn_database)
           = (None, quiet (overdrawn_database
                \<lparr>transactions := transactions overdrawn_database
                   @ [(manual_transaction 2 ''expense'' 9223372036854775807)
                        \<lparr>Tx_BalanceAfter := 9223372036854775807\<rparr>],
                 cards := [overdrawn_card\<lparr>Card_Balance := 9223372036854775807\<rparr>,
                           provider_card]\<rparr>))"
    by (simp add: service_defs concrete_defs storage_defs overdrawn_defs)
  have 4: "sint (Card_Balance overdrawn_card)
             + sint (signedDelta ''expense'' 9223372036854775807) = - 9223372036854775809"
    by (simp add: overdrawn_defs manual_card_def signedDelta_def)
  from 1 2 3 4 show ?thesis by blast
qed

text \<open>
  C4: \<^verbatim>\<open>CreateTransaction\<close> rejects with an insufficient-funds error whenever the card's
  balance plus the delta is below the negated credit limit, and then the balance is
  unchanged and no transaction is stored.  The specification's example is rejected so:
  balance 1000, credit limit 0, expense of 1500; and so is every call whose sum of balance
  and delta is an \<^verbatim>\<open>int64\<close> (\<open>insufficient_funds_rejected_in_range\<close>).  But the service
  compares the wrapped \<^verbatim>\<open>int64\<close> sum.  Evaluated: on the card with balance -2 and credit
  limit 2, an expense of 9223372036854775807 has the sum -9223372036854775809, below the
  negated limit -2, and is accepted: the call returns no error, a second transaction is
  stored and the card's balance becomes 9223372036854775807.
\<close>

theorem C4_overflowing_expense_is_accepted:
  "sint (Card_Balance overdrawn_card) + sint (signedDelta ''expense'' 9223372036854775807)
     < - sint (Card_CreditLimit overdrawn_card)
   \<and> fst (CreateTransaction 0 7 (manual_transaction 0 ''expense'' 9223372036854775807)
            (quiet overdrawn_database)) = None
   \<and> map Card_Balance
        (cards (db (snd (CreateTransaction 0 7
           (manual_transaction 0 ''expense'' 9223372036854775807) (quiet overdrawn_database)))))
     = [9223372036854775807, 5000]
   \<and> map Tx_Amount
        (transactions (db (snd (CreateTransaction 0 7
           (manual_transaction 0 ''expense'' 9223372036854775807) (quiet overdrawn_database)))))
     = [2, 9223372036854775807]
   \<and> CreateTransaction 0 7 (manual_transaction 0 ''expense'' 1500) (quiet base_database)
     = (Some ErrInsufficientFunds, quiet base_database)"
proof -
  have 1: "sint (Card_Balance overdrawn_card)
             + sint (signedDelta ''expense'' 9223372036854775807)
           < - sint (Card_CreditLimit overdrawn_card)"
    by (simp add: overdrawn_defs manual_card_def signedDelta_def)
  have 2: "CreateTransaction 0 7 (manual_transaction 0 ''expense'' 9223372036854775807)
             (quiet overdrawn_database)
           = (None, quiet (overdrawn_database
                \<lparr>transactions := transactions overdrawn_database
                   @ [(manual_transaction 2 ''expense'' 9223372036854775807)
                        \<lparr>Tx_BalanceAfter := 9223372036854775807\<rparr>],
                 cards := [overdrawn_card\<lparr>Card_Balance := 9223372036854775807\<rparr>,
                           provider_card]\<rparr>))"
    by (simp add: service_defs concrete_defs storage_defs overdrawn_defs)
  have 3: "CreateTransaction 0 7 (manual_transaction 0 ''expense'' 1500) (quiet base_database)
           = (Some ErrInsufficientFunds, quiet base_database)"
    by (simp add: service_defs concrete_defs storage_defs)
  show ?thesis
    unfolding 2 using 1 3 by (simp add: concrete_defs overdrawn_defs)
qed


lemma external_update_rejected:
  assumes "find (\<lambda>r. Tx_ID r = Tx_ID t) (transactions (db w)) = Some existing"
    and "Tx_MonobankID existing \<noteq> []"
  shows "\<exists>e w'. UpdateTransaction userID t w = (Some e, w') \<and> db w' = db w
           \<and> (\<not> fst (exec w) \<and> userID = Tx_UserID existing
                \<longrightarrow> e = Errorf ''cannot modify monobank transaction'')"
proof (cases "exec w")
  case (Pair failed w1)
  then have d: "db w1 = db w" by (auto dest: exec_preserves)
  show ?thesis
    using Pair d assms
    by (auto simp: UpdateTransaction_def transactionRepository_GetByID_def query_def)
qed

lemma external_delete_rejected:
  assumes "find (\<lambda>r. Tx_ID r = i) (transactions (db w)) = Some existing"
    and "Tx_MonobankID existing \<noteq> []"
  shows "\<exists>e w'. DeleteTransaction userID i w = (Some e, w') \<and> db w' = db w
           \<and> (\<not> fst (exec w) \<and> userID = Tx_UserID existing
                \<longrightarrow> e = Errorf ''cannot delete monobank transaction'')"
proof (cases "exec w")
  case (Pair failed w1)
  then have d: "db w1 = db w" by (auto dest: exec_preserves)
  show ?thesis
    using Pair d assms
    by (auto simp: DeleteTransaction_def transactionRepository_GetByID_def query_def)
qed

text \<open>
  C5: for a stored transaction with a non-empty Monobank identifier, every call of
  \<^verbatim>\<open>UpdateTransaction\<close> and of \<^verbatim>\<open>DeleteTransaction\<close> on it returns an error and leaves
  the tables unchanged; when the read of the record succeeds and the caller is its owner,
  so that the call reaches the check, the error is the one that refuses to modify
  (respectively delete) a Monobank transaction.
\<close>

theorem C5_external_is_immutable:
  assumes "find (\<lambda>r. Tx_ID r = i) (transactions (db w)) = Some existing"
    and "Tx_MonobankID existing \<noteq> []"
  shows "(\<exists>e w'. UpdateTransaction userID (t\<lparr>Tx_ID := i\<rparr>) w = (Some e, w') \<and> db w' = db w
            \<and> (\<not> fst (exec w) \<and> userID = Tx_UserID existing
                 \<longrightarrow> e = Errorf ''cannot modify monobank transaction''))
       \<and> (\<exists>e w'. DeleteTransaction userID i w = (Some e, w') \<and> db w' = db w
            \<and> (\<not> fst (exec w) \<and> userID = Tx_UserID existing
                 \<longrightarrow> e = Errorf ''cannot delete monobank transaction''))"
proof -
  have "find (\<lambda>r. Tx_ID r = Tx_ID (t\<lparr>Tx_ID := i\<rparr>)) (transactions (db w)) = Some existing"
    using assms(1) by simp
  from external_update_rejected [OF this assms(2)] external_delete_rejected [OF assms]
  show ?thesis by blast
qed

lemma UpdateTransaction_leaves_cards:
  "UpdateTransaction userID t w = (r, w') \<Longrightarrow> cards (db w') = cards (db w)"
  unfolding UpdateTransaction_def transactionRepository_Update_def
  by (auto simp: statement_def update_transaction_def
      split: prod.splits sum.splits option.splits if_splits
      dest!: cardRepository_GetByID_preserves verifyCategory_preserves
             transactionRepository_GetByID_preserves exec_preserves)

lemma DeleteTransaction_leaves_cards:
  "DeleteTransaction userID i w = (r, w') \<Longrightarrow> cards (db w') = cards (db w)"
  unfolding DeleteTransaction_def transactionRepository_Delete_def
  by (auto simp: statement_def delete_transaction_def
      split: prod.splits sum.splits option.splits if_splits
      dest!: transactionRepository_GetByID_preserves exec_preserves)

theorem C5_external_is_immutable_witness:
  "find (\<lambda>r. Tx_ID r = 5) (transactions (db (quiet imported_database))) = Some imported_transaction
   \<and> Tx_MonobankID imported_transaction = ''m1''
   \<and> fst (UpdateTransaction 7 ((manual_transaction 0 ''expense'' 1)\<lparr>Tx_ID := 5\<rparr>)
            (quiet imported_database)) = Some (Errorf ''cannot modify monobank transaction'')
   \<and> db (snd (UpdateTransaction 7 ((manual_transaction 0 ''expense'' 1)\<lparr>Tx_ID := 5\<rparr>)
                (quiet imported_database))) = imported_database
   \<and> fst (DeleteTransaction 7 5 (quiet imported_database))
     = Some (Errorf ''cannot delete monobank transaction'')
   \<and> db (snd (DeleteTransaction 7 5 (quiet imported_database))) = imported_database"
proof -
  let ?w = "quiet imported_database"
  have h1: "find (\<lambda>r. Tx_ID r = 5) (transactions (db ?w)) = Some imported_transaction"
    by (simp add: quiet_def imported_database_def imported_transaction_def)
  have h2: "Tx_MonobankID imported_transaction \<noteq> []"
    by (simp add: imported_transaction_def convertMonobankTransaction_def statement_item_def)
  have h3: "Tx_MonobankID imported_transaction = ''m1''"
    by (simp add: imported_transaction_def convertMonobankTransaction_def statement_item_def)
  have ok: "\<not> fst (exec ?w)" by (simp add: exec_def quiet_def)
  have own: "7 = Tx_UserID imported_transaction"
    by (simp add: imported_transaction_def convertMonobankTransaction_def provider_card_def)
  have dq: "db ?w = imported_database" by (simp add: quiet_def)
  from C5_external_is_immutable [OF h1 h2, of 7 "manual_transaction 0 ''expense'' 1"] ok own dq
  show ?thesis using h1 h3 by auto
qed

text \<open>
  C3: an update of a manual transaction reapplies the balance delta between the old and the
  new amount and type to the card, and a delete reverses the transaction's effect on the
  card.  Neither happens: \<^verbatim>\<open>transactionRepository.Update\<close> and
  \<^verbatim>\<open>transactionRepository.Delete\<close> write the transaction row only
  (\<open>UpdateTransaction_leaves_cards\<close>, \<open>DeleteTransaction_leaves_cards\<close>), while
  \<^verbatim>\<open>transactionRepository.Create\<close> does move the balance.  Evaluated: an expense of 100
  on the card holding 1000 brings the balance to 900; raising the expense to 300 leaves the
  balance at 900 instead of 700, and deleting it leaves the balance at 900 instead of 1000.
\<close>

theorem C3_balance_left_as_it_was:
  "map Card_Balance
     (cards (db (snd (CreateTransaction 0 7 (manual_transaction 0 ''expense'' 100)
                        (quiet base_database))))) = [900, 5000]
   \<and> fst (UpdateTransaction 7 (manual_transaction 1 ''expense'' 300)
            (snd (CreateTransaction 0 7 (manual_transaction 0 ''expense'' 100)
                    (quiet base_database)))) = None
   \<and> map Tx_Amount
        (transactions (db (snd (UpdateTransaction 7 (manual_transaction 1 ''expense'' 300)
           (snd (CreateTransaction 0 7 (manual_transaction 0 ''expense'' 100)
                   (quiet base_database))))))) = [300]
   \<and> map Card_Balance
        (cards (db (snd (UpdateTransaction 7 (manual_transaction 1 ''expense'' 300)
           (snd (CreateTransaction 0 7 (manual_transaction 0 ''expense'' 100)
                   (quiet base_database))))))) = [900, 5000]
   \<and> fst (DeleteTransaction 7 1
            (snd (CreateTransaction 0 7 (manual_transaction 0 ''expense'' 100)
                    (quiet base_database)))) = None
   \<and> transactions (db (snd (DeleteTransaction 7 1
           (snd (CreateTransaction 0 7 (manual_transaction 0 ''expense'' 100)
                   (quiet base_database)))))) = []
   \<and> map Card_Balance
        (cards (db (snd (DeleteTransaction 7 1
           (snd (CreateTransaction 0 7 (manual_transaction 0 ''expense'' 100)
                   (quiet base_database))))))) = [900, 5000]"
proof -
  let ?w1 = "snd (CreateTransaction 0 7 (manual_transaction 0 ''expense'' 100) (quiet base_database))"
  have w1: "?w1 = quiet (base_database
              \<lparr>transactions := [(manual_transaction 1 ''expense'' 100)\<lparr>Tx_BalanceAfter := 900\<rparr>],
               cards := [manual_card\<lparr>Card_Balance := 900\<rparr>, provider_card]\<rparr>)"
    by (simp add: service_defs concrete_defs storage_defs)
  have 1: "map Card_Balance (cards (db ?w1)) = [900, 5000]"
    unfolding w1 by (simp add: concrete_defs)
  have u: "UpdateTransaction 7 (manual_transaction 1 ''expense'' 300) ?w1
           = (None, quiet (base_database
              \<lparr>transactions := [(manual_transaction 1 ''expense'' 300)],
               cards := [manual_card\<lparr>Card_Balance := 900\<rparr>, provider_card]\<rparr>))"
    unfolding w1 by (simp add: service_defs concrete_defs storage_defs)
  have d: "DeleteTransaction 7 1 ?w1
           = (None, quiet (base_database
              \<lparr>transactions := [],
               deleted_transactions :=
                 [(manual_transaction 1 ''expense'' 100)\<lparr>Tx_BalanceAfter := 900\<rparr>],
               cards := [manual_card\<lparr>Card_Balance := 900\<rparr>, provider_card]\<rparr>))"
    unfolding w1 by (simp add: service_defs concrete_defs storage_defs)
  show ?thesis
    unfolding u d using 1 by (simp add: concrete_defs)
qed

section \<open>Ingestion of statement items\<close>

lemmas monobank_defs =
  syncCardTransactions_def HandleWebhook_def ledger_repository_def plain_repository_def
  plain_Create_def plain_GetByCardID_def transactionRepository_Create_def
  transactionRepository_GetByCardID_def transactionRepository_GetByMonobankID_def
  cardRepository_GetByMonobankAccountID_def first_by_pk_def convertMonobankTransaction_def
  abs_int64_def time_Unix_def Unix_def provider_env_def Let_def word_sless_alt

text \<open>
  C2: ingesting the same statement item once by polling and once by a webhook replay leaves
  exactly one stored transaction and one balance effect.  The polling loop looks the item
  up by its Monobank identifier and skips it when it is stored
  (\<open>polling_again_is_idempotent\<close>); \<^verbatim>\<open>HandleWebhook\<close> has no such lookup and hands the
  converted item to \<^verbatim>\<open>Create\<close> at once (\<open>webhook_inserts_without_lookup\<close>).  Evaluated: after a poll that stores \<^verbatim>\<open>m1\<close>
  (-250) on the card holding 5000, the webhook with the same item succeeds and there are two
  rows \<^verbatim>\<open>m1\<close>; with the ledger's repository the balance has moved twice, to 4500.  The
  repository next to the service, which only inserts, stores the second row as well.
\<close>

theorem C2_webhook_replay_is_stored_twice:
  "map Tx_MonobankID (transactions (db (snd (syncCardTransactions ledger_repository provider_env
       provider_card ''token'' (quiet base_database))))) = [''m1'']
   \<and> map Card_Balance (cards (db (snd (syncCardTransactions ledger_repository provider_env
       provider_card ''token'' (quiet base_database))))) = [1000, 4750]
   \<and> fst (HandleWebhook ledger_repository
            (Envelope ''StatementItem'' (Statement ''acc1'' (statement_item ''m1'' (- 250) 4750)))
            (snd (syncCardTransactions ledger_repository provider_env
                    provider_card ''token'' (quiet base_database)))) = None
   \<and> map Tx_MonobankID (transactions (db (snd (HandleWebhook ledger_repository
            (Envelope ''StatementItem'' (Statement ''acc1'' (statement_item ''m1'' (- 250) 4750)))
            (snd (syncCardTransactions ledger_repository provider_env
                    provider_card ''token'' (quiet base_database))))))) = [''m1'', ''m1'']
   \<and> map Card_Balance (cards (db (snd (HandleWebhook ledger_repository
            (Envelope ''StatementItem'' (Statement ''acc1'' (statement_item ''m1'' (- 250) 4750)))
            (snd (syncCardTransactions ledger_repository provider_env
                    provider_card ''token'' (quiet base_database))))))) = [1000, 4500]
   \<and> map Tx_MonobankID (transactions (db (snd (HandleWebhook plain_repository
            (Envelope ''StatementItem'' (Statement ''acc1'' (statement_item ''m1'' (- 250) 4750)))
            (snd (syncCardTransactions plain_repository provider_env
                    provider_card ''token'' (quiet base_database))))))) = [''m1'', ''m1'']"
proof -
  let ?item = "statement_item ''m1'' (- 250) 4750"
  let ?payload = "Envelope ''StatementItem'' (Statement ''acc1'' ?item)"
  let ?row = "convertMonobankTransaction ?item provider_card"
  let ?w1 = "quiet (base_database\<lparr>transactions := [?row\<lparr>Tx_ID := 1\<rparr>],
                cards := [manual_card, provider_card\<lparr>Card_Balance := 4750\<rparr>]\<rparr>)"
  have s: "syncCardTransactions ledger_repository provider_env provider_card ''token''
             (quiet base_database) = (None, ?w1)"
    by (simp add: monobank_defs storage_defs concrete_defs)
  let ?row2 = "convertMonobankTransaction ?item (provider_card\<lparr>Card_Balance := 4750\<rparr>)"
  have h: "HandleWebhook ledger_repository ?payload ?w1
           = (None, quiet (base_database\<lparr>transactions := [?row\<lparr>Tx_ID := 1\<rparr>, ?row2\<lparr>Tx_ID := 2\<rparr>],
                cards := [manual_card, provider_card\<lparr>Card_Balance := 4500\<rparr>]\<rparr>))"
    by (simp add: monobank_defs storage_defs concrete_defs)
  let ?p1 = "quiet (base_database\<lparr>transactions := [?row\<lparr>Tx_ID := 1\<rparr>]\<rparr>)"
  have sp: "syncCardTransactions plain_repository provider_env provider_card ''token''
             (quiet base_database) = (None, ?p1)"
    by (simp add: monobank_defs storage_defs concrete_defs)
  have hp: "HandleWebhook plain_repository ?payload ?p1
           = (None, quiet (base_database\<lparr>transactions := [?row\<lparr>Tx_ID := 1\<rparr>, ?row\<lparr>Tx_ID := 2\<rparr>]\<rparr>))"
    by (simp add: monobank_defs storage_defs concrete_defs)
  show ?thesis
    unfolding s sp snd_conv h hp fst_conv
    by (simp add: concrete_defs convertMonobankTransaction_def)
qed

text \<open>Polling the same item again stores nothing.\<close>

lemma polling_again_is_idempotent:
  "db (snd (syncCardTransactions ledger_repository provider_env provider_card ''token''
        (snd (syncCardTransactions ledger_repository provider_env provider_card ''token''
               (quiet base_database)))))
   = db (snd (syncCardTransactions ledger_repository provider_env provider_card ''token''
               (quiet base_database)))"
proof -
  let ?item = "statement_item ''m1'' (- 250) 4750"
  let ?row = "convertMonobankTransaction ?item provider_card"
  let ?w1 = "quiet (base_database\<lparr>transactions := [?row\<lparr>Tx_ID := 1\<rparr>],
                cards := [manual_card, provider_card\<lparr>Card_Balance := 4750\<rparr>]\<rparr>)"
  have s: "syncCardTransactions ledger_repository provider_env provider_card ''token''
             (quiet base_database) = (None, ?w1)"
    by (simp add: monobank_defs storage_defs concrete_defs)
  have s2: "syncCardTransactions ledger_repository provider_env provider_card ''token'' ?w1
             = (None, ?w1)"
    by (simp add: monobank_defs storage_defs concrete_defs)
  show ?thesis unfolding s snd_conv s2 by simp
qed

text \<open>
  In general: without storage failures and for a known account, the webhook stores the item
  whatever the table holds already, here with the repository next to the service.
\<close>

lemma webhook_inserts_without_lookup:
  assumes "faults w = []"
    and "first_by_pk Card_ID
           (filter (\<lambda>c. Card_MonobankAccountID c = account \<and> \<not> Card_IsManual c) (cards (db w)))
         = Some c"
  shows "\<exists>row w'. HandleWebhook plain_repository (Envelope ''StatementItem'' (Statement account item)) w
                    = (None, w')
           \<and> transactions (db w') = transactions (db w) @ [row]
           \<and> Tx_MonobankID row = mono_ID item"
proof -
  let ?t = "convertMonobankTransaction item c"
  have g: "cardRepository_GetByMonobankAccountID account w = (Inr (Some c), w)"
    using assms by (simp add: cardRepository_GetByMonobankAccountID_def query_no_fault)
  have ins: "insert_transaction ?t (db w)
             = Inr ((db w)\<lparr>transactions := transactions (db w)
                       @ [?t\<lparr>Tx_ID := fresh_uuid (transaction_keys (db w))\<rparr>]\<rparr>)"
    using convert_type_valid [of item c]
    by (simp add: insert_transaction_def convertMonobankTransaction_def)
  have "HandleWebhook plain_repository (Envelope ''StatementItem'' (Statement account item)) w
        = (None, w\<lparr>db := (db w)\<lparr>transactions := transactions (db w)
                       @ [?t\<lparr>Tx_ID := fresh_uuid (transaction_keys (db w))\<rparr>]\<rparr>\<rparr>)"
    using assms(1) g ins
    by (simp add: HandleWebhook_def plain_repository_def plain_Create_def statement_no_fault)
  moreover have "Tx_MonobankID (?t\<lparr>Tx_ID := fresh_uuid (transaction_keys (db w))\<rparr>)
                 = mono_ID item"
    by (simp add: convertMonobankTransaction_def)
  ultimately show ?thesis by auto
qed

section \<open>Synchronisation of a user's cards\<close>

lemma syncCards_append:
  "syncCards R env tok (xs @ ys) w = syncCards R env tok ys (syncCards R env tok xs w)"
  by (induction xs arbitrary: w) (auto split: prod.splits option.splits)

text \<open>
  C8: once the integration and the user's cards have been read, \<^verbatim>\<open>SyncUserData\<close>
  returns success, whatever happens while the cards are synced, and its final state is that
  of the loop over all cards.  When the sync of a provider card fails at its turn (a provider
  error or a storage error), the failure is appended to the log and the loop goes on with
  every card after it, from the state the failed sync left.  The witness has two provider
  cards: the provider answers the first with status 500, and the statement item of the
  second is stored all the same.
\<close>

theorem C8_sync_failure_is_isolated:
  assumes "monobankIntegrationRepository_GetByUserID userID w = (Inr (Some integration), w1)"
    and "cardRepository_GetByUserID userID w1 = (Inr cs, w2)"
  shows "SyncUserData R env userID w = (None, syncCards R env (Int_Token integration) cs w2)
       \<and> (\<forall>pre c post e wc.
             cs = pre @ c # post \<and> \<not> Card_IsManual c \<and> Card_MonobankAccountID c \<noteq> []
             \<and> syncCardTransactions R env c (Int_Token integration)
                 (syncCards R env (Int_Token integration) pre w2) = (Some e, wc)
             \<longrightarrow> syncCards R env (Int_Token integration) cs w2
                 = syncCards R env (Int_Token integration) post
                     (log_append (Errorw ''Failed to sync card transactions''
                                    [(''error'', LErr e), (''card_id'', LID (Card_ID c)),
                                     (''account_id'', LStr (Card_MonobankAccountID c))]) wc))"
proof -
  have 1: "SyncUserData R env userID w = (None, syncCards R env (Int_Token integration) cs w2)"
    using assms by (simp add: SyncUserData_def)
  have 2: "syncCards R env tok (pre @ c # post) w2
           = syncCards R env tok post
               (log_append (Errorw ''Failed to sync card transactions''
                              [(''error'', LErr e), (''card_id'', LID (Card_ID c)),
                               (''account_id'', LStr (Card_MonobankAccountID c))]) wc)"
    if "\<not> Card_IsManual c" "Card_MonobankAccountID c \<noteq> []"
      "syncCardTransactions R env c tok (syncCards R env tok pre w2) = (Some e, wc)"
    for tok pre c post e wc
    using that by (simp add: syncCards_append)
  from 1 2 show ?thesis by blast
qed

text \<open>With the ledger's repository, a failed sync of a card has written nothing.\<close>

lemma syncCardTransactions_error_preserves:
  assumes "syncCardTransactions ledger_repository env c tok w = (Some e, w')"
  shows "db w' = db w \<and> logs w' = logs w"
  using assms
  by (auto simp: syncCardTransactions_def ledger_repository_def
      transactionRepository_GetByCardID_def Let_def
      split: prod.splits sum.splits if_splits http_result.splits option.splits
      dest!: query_preserves)

lemmas sync_defs =
  SyncUserData_def monobankIntegrationRepository_GetByUserID_def cardRepository_GetByUserID_def
  log_append_def

theorem C8_sync_failure_is_isolated_witness:
  "monobankIntegrationRepository_GetByUserID 7 (quiet sync_database)
     = (Inr (Some integration_7), quiet sync_database)
   \<and> cardRepository_GetByUserID 7 (quiet sync_database)
     = (Inr [failing_card, provider_card], quiet sync_database)
   \<and> fst (syncCardTransactions ledger_repository provider_env failing_card ''token''
            (quiet sync_database)) = Some (WithStatus ErrMonobankAPIError 500)
   \<and> fst (SyncUserData ledger_repository provider_env 7 (quiet sync_database)) = None
   \<and> map Tx_MonobankID
        (transactions (db (snd (SyncUserData ledger_repository provider_env 7
                                  (quiet sync_database))))) = [''m1'']
   \<and> logs (snd (SyncUserData ledger_repository provider_env 7 (quiet sync_database)))
     = [Errorw ''Failed to sync card transactions''
          [(''error'', LErr (WithStatus ErrMonobankAPIError 500)), (''card_id'', LID 3),
           (''account_id'', LStr ''acc0'')]]"
proof -
  let ?w = "quiet sync_database"
  have h1: "monobankIntegrationRepository_GetByUserID 7 ?w = (Inr (Some integration_7), ?w)"
    by (simp add: sync_defs first_by_pk_def storage_defs concrete_defs sync_database_def
        integration_7_def failing_card_def)
  have h2: "cardRepository_GetByUserID 7 ?w = (Inr [failing_card, provider_card], ?w)"
    by (simp add: sync_defs storage_defs concrete_defs sync_database_def failing_card_def)
  have tok: "Int_Token integration_7 = ''token''" by (simp add: integration_7_def)
  have f: "syncCardTransactions ledger_repository provider_env failing_card ''token'' ?w
           = (Some (WithStatus ErrMonobankAPIError 500), ?w)"
    by (simp add: monobank_defs storage_defs concrete_defs sync_database_def failing_card_def)
  let ?wl = "log_append (Errorw ''Failed to sync card transactions''
               [(''error'', LErr (WithStatus ErrMonobankAPIError 500)),
                (''card_id'', LID (Card_ID failing_card)),
                (''account_id'', LStr (Card_MonobankAccountID failing_card))]) ?w"
  note inst = C8_sync_failure_is_isolated [OF h1 h2, of ledger_repository provider_env]
  have r: "SyncUserData ledger_repository provider_env 7 ?w
           = (None, syncCards ledger_repository provider_env ''token''
                      [failing_card, provider_card] ?w)"
    using inst unfolding tok by (rule conjunct1)
  have "\<forall>pre c post e wc.
             [failing_card, provider_card] = pre @ c # post \<and> \<not> Card_IsManual c
             \<and> Card_MonobankAccountID c \<noteq> []
             \<and> syncCardTransactions ledger_repository provider_env c ''token''
                 (syncCards ledger_repository provider_env ''token'' pre ?w) = (Some e, wc)
             \<longrightarrow> syncCards ledger_repository provider_env ''token'' [failing_card, provider_card] ?w
                 = syncCards ledger_repository provider_env ''token'' post
                     (log_append (Errorw ''Failed to sync card transactions''
                                    [(''error'', LErr e), (''card_id'', LID (Card_ID c)),
                                     (''account_id'', LStr (Card_MonobankAccountID c))]) wc)"
    using inst unfolding tok by (rule conjunct2)
  from this [rule_format, of "[]" failing_card "[provider_card]"
                  "WithStatus ErrMonobankAPIError 500" ?w] f
  have c: "syncCards ledger_repository provider_env ''token'' [failing_card, provider_card] ?w
           = syncCards ledger_repository provider_env ''token'' [provider_card] ?wl"
    by (simp add: failing_card_def)
  have s: "syncCards ledger_repository provider_env ''token'' [provider_card] ?wl
           = (quiet (sync_database\<lparr>transactions :=
                 [(convertMonobankTransaction (statement_item ''m1'' (- 250) 4750) provider_card)
                    \<lparr>Tx_ID := 1\<rparr>],
               cards := [failing_card, provider_card\<lparr>Card_Balance := 4750\<rparr>]\<rparr>))
             \<lparr>logs := [Errorw ''Failed to sync card transactions''
                 [(''error'', LErr (WithStatus ErrMonobankAPIError 500)), (''card_id'', LID 3),
                  (''account_id'', LStr ''acc0'')]]\<rparr>"
    by (simp add: monobank_defs storage_defs concrete_defs sync_database_def failing_card_def
        log_append_def)
  show ?thesis
    unfolding r c s using h1 h2 f
    by (simp add: quiet_def convertMonobankTransaction_def statement_item_def)
qed

section \<open>Categories\<close>

lemma name_is_taken:
  assumes "existing \<in> set (categories d)" "Cat_UserID existing = Cat_UserID c"
    "Cat_Name existing = Cat_Name c"
  shows "list_ex (\<lambda>existingCategory. Cat_Name existingCategory = Cat_Name c)
           (sort_key category_order (filter (\<lambda>x. Cat_UserID x = Cat_UserID c) (categories d)))"
  using assms by (auto simp: list_ex_iff)

text \<open>
  C10: when the owner of the new category already has a category of the same name, whatever
  the types and parents of the two, \<^verbatim>\<open>categoryService.Create\<close> returns an error and
  stores nothing; when the validation passes, the user exists and the two reads succeed, so
  that the call reaches the comparison of names, the error is
  \<^verbatim>\<open>ErrCategoryAlreadyExists\<close>.
\<close>

theorem C10_duplicate_name_is_rejected:
  assumes "existing \<in> set (categories (db w))"
    and "Cat_UserID existing = Cat_UserID c"
    and "Cat_Name existing = Cat_Name c"
  shows "\<exists>e w'. categoryService_Create newID (Some c) w = (Some e, w') \<and> db w' = db w
           \<and> (validateCategory (Some c) = None
                \<and> find (\<lambda>u. User_ID u = Cat_UserID c) (users (db w)) \<noteq> None
                \<and> \<not> fst (exec w) \<and> \<not> fst (exec (snd (exec w)))
                \<longrightarrow> e = ErrCategoryAlreadyExists)"
proof (cases "validateCategory (Some c)")
  case (Some err)
  then show ?thesis by (simp add: categoryService_Create_def)
next
  case None
  obtain f1 w1 where e1: "exec w = (f1, w1)" by (cases "exec w")
  obtain f2 w2 where e2: "exec w1 = (f2, w2)" by (cases "exec w1")
  have d1: "db w1 = db w" using e1 by (auto dest: exec_preserves)
  have d2: "db w2 = db w" using e2 d1 by (auto dest: exec_preserves)
  have taken: "list_ex (\<lambda>existingCategory. Cat_Name existingCategory = Cat_Name c)
           (sort_key category_order (filter (\<lambda>x. Cat_UserID x = Cat_UserID c) (categories (db w))))"
    using assms by (rule name_is_taken)
  show ?thesis
  proof (cases f1)
    case True
    then show ?thesis
      using None e1 d1
      by (simp add: categoryService_Create_def userRepository_GetByID_def query_def)
  next
    case f1: False
    show ?thesis
    proof (cases "find (\<lambda>u. User_ID u = Cat_UserID c) (users (db w))")
      case nouser: None
      then show ?thesis
        using None e1 d1 f1
        by (simp add: categoryService_Create_def userRepository_GetByID_def query_def)
    next
      case (Some user)
      show ?thesis
      proof (cases f2)
        case True
        then show ?thesis
          using None e1 e2 d1 d2 f1 Some
          by (simp add: categoryService_Create_def userRepository_GetByID_def
              categoryRepository_GetByUserID_def query_def)
      next
        case False
        then show ?thesis
          using None e1 e2 d1 d2 f1 Some taken
          by (simp add: categoryService_Create_def userRepository_GetByID_def
              categoryRepository_GetByUserID_def query_def)
      qed
    qed
  qed
qed

lemmas category_defs =
  categoryService_Create_def validateCategory_def userRepository_GetByID_def
  categoryRepository_GetByUserID_def categoryRepository_Create_def insert_category_def
  category_order_def category_def root_database_def chain_database_def looping_database_def
  categoryRepository_GetByID_def

theorem C10_duplicate_name_is_rejected_witness:
  "category 11 ''A'' None \<in> set (categories (db (quiet root_database)))
   \<and> Cat_UserID (category 11 ''A'' None)
       = Cat_UserID ((category 0 ''A'' (Some 11))\<lparr>Cat_Type := ''income''\<rparr>)
   \<and> Cat_Name (category 11 ''A'' None)
       = Cat_Name ((category 0 ''A'' (Some 11))\<lparr>Cat_Type := ''income''\<rparr>)
   \<and> fst (categoryService_Create 21 (Some ((category 0 ''A'' (Some 11))\<lparr>Cat_Type := ''income''\<rparr>))
            (quiet root_database)) = Some ErrCategoryAlreadyExists
   \<and> db (snd (categoryService_Create 21
                 (Some ((category 0 ''A'' (Some 11))\<lparr>Cat_Type := ''income''\<rparr>))
                 (quiet root_database))) = root_database"
proof -
  let ?w = "quiet root_database"
  let ?c = "(category 0 ''A'' (Some 11))\<lparr>Cat_Type := ''income''\<rparr>"
  have h1: "category 11 ''A'' None \<in> set (categories (db ?w))"
    by (simp add: quiet_def root_database_def)
  have h2: "Cat_UserID (category 11 ''A'' None) = Cat_UserID ?c" by (simp add: category_def)
  have h3: "Cat_Name (category 11 ''A'' None) = Cat_Name ?c" by (simp add: category_def)
  have v: "validateCategory (Some ?c) = None"
    by (simp add: validateCategory_def category_def uuid_Nil_def)
  have u: "find (\<lambda>u. User_ID u = Cat_UserID ?c) (users (db ?w)) \<noteq> None"
    by (simp add: category_def concrete_defs root_database_def)
  have e: "\<not> fst (exec ?w) \<and> \<not> fst (exec (snd (exec ?w)))"
    by (simp add: exec_def quiet_def)
  have dq: "db ?w = root_database" by (simp add: quiet_def)
  from C10_duplicate_name_is_rejected [OF h1 h2 h3, of 21] v u e dq
  show ?thesis using h1 h2 h3 by auto
qed

text \<open>
  The walk of \<^verbatim>\<open>wouldCreateCircularReference\<close> from a category that is its own parent,
  in search of another category, never returns.
\<close>

lemma self_parent_walk_never_returns:
  "ancestorWalk 11 (category 15 ''X'' (Some 15)) (quiet looping_database) = None"
proof (rule ccontr)
  assume "ancestorWalk 11 (category 15 ''X'' (Some 15)) (quiet looping_database) \<noteq> None"
  then obtain y where
    y: "ancestorWalk 11 (category 15 ''X'' (Some 15)) (quiet looping_database) = Some y"
    by blast
  have "\<not> ((11::uuid) = 11 \<and> category 15 ''X'' (Some 15) = category 15 ''X'' (Some 15)
            \<and> quiet looping_database = quiet looping_database)"
  proof (rule ancestorWalk.raw_induct
      [where P = "\<lambda>categoryID current w r.
                    \<not> (categoryID = 11 \<and> current = category 15 ''X'' (Some 15)
                       \<and> w = quiet looping_database)", OF _ y])
    fix walk :: "uuid \<Rightarrow> Category \<Rightarrow> world \<Rightarrow> (bool \<times> world) option"
    fix categoryID :: uuid and current :: Category and w :: world and r :: "bool \<times> world"
    assume IH: "\<And>categoryID current w r. walk categoryID current w = Some r \<Longrightarrow>
                  \<not> (categoryID = 11 \<and> current = category 15 ''X'' (Some 15)
                     \<and> w = quiet looping_database)"
    assume step: "(case Cat_ParentID current of
                     None \<Rightarrow> Some (False, w)
                   | Some parentID \<Rightarrow>
                       if parentID = categoryID then Some (True, w)
                       else (case categoryRepository_GetByID parentID w of
                               (Inl e, w1) \<Rightarrow> Some (False, w1)
                             | (Inr None, w1) \<Rightarrow> Some (False, w1)
                             | (Inr (Some nxt), w1) \<Rightarrow> walk categoryID nxt w1)) = Some r"
    show "\<not> (categoryID = 11 \<and> current = category 15 ''X'' (Some 15)
              \<and> w = quiet looping_database)"
    proof
      assume a: "categoryID = 11 \<and> current = category 15 ''X'' (Some 15)
                 \<and> w = quiet looping_database"
      have "categoryRepository_GetByID 15 (quiet looping_database)
            = (Inr (Some (category 15 ''X'' (Some 15))), quiet looping_database)"
        by (simp add: categoryRepository_GetByID_def query_def exec_def quiet_def
            looping_database_def category_def)
      with step a have "walk 11 (category 15 ''X'' (Some 15)) (quiet looping_database) = Some r"
        by (simp add: category_def)
      from IH [OF this] show False by simp
    qed
  qed
  then show False by simp
qed

text \<open>
  C6: \<^verbatim>\<open>MoveCategory\<close> rejects a move under the category itself or under one of its
  descendants, and its cycle check also rejects when the walk over the ancestors of the new
  parent comes back to a node it has seen.  The first part holds (\<open>chain_example\<close>,
  \<open>MoveCategory_rejects_descendant\<close>), and where every parent chain terminates a move
  returns and leaves every chain terminating (\<open>MoveCategory_returns\<close>,
  \<open>MoveCategory_keeps_chains_terminating\<close>).  The second holds for the check in the repository,
  \<^verbatim>\<open>checkCategoryCircularReference\<close>, which keeps a set of visited nodes; the check in the
  service, \<^verbatim>\<open>wouldCreateCircularReference\<close>, runs first and keeps none.  Evaluated:
  \<^verbatim>\<open>categoryService.Create\<close> accepts a category \<^verbatim>\<open>X\<close> that names itself as its parent;
  moving the root \<^verbatim>\<open>A\<close> under \<^verbatim>\<open>X\<close> then never returns, although the repository's check
  on the same arguments reports the existing cycle.
\<close>

theorem C6_move_under_existing_cycle_never_returns:
  "categoryService_Create 21 (Some (category 15 ''X'' (Some 15))) (quiet root_database)
     = (None, quiet looping_database)
   \<and> MoveCategory 11 (Some 15) (quiet looping_database) = None
   \<and> checkCategoryCircularReference 11 15 (quiet looping_database)
     = (Some (Errorf ''circular reference detected in existing category hierarchy''),
        quiet looping_database)"
proof -
  have 1: "categoryService_Create 21 (Some (category 15 ''X'' (Some 15))) (quiet root_database)
             = (None, quiet looping_database)"
    by (simp add: category_defs storage_defs concrete_defs list_ex_iff)
  have g11: "categoryRepository_GetByID 11 (quiet looping_database)
            = (Inr (Some (category 11 ''A'' None)), quiet looping_database)"
    by (simp add: categoryRepository_GetByID_def query_def exec_def quiet_def
        looping_database_def category_def)
  have g15: "categoryRepository_GetByID 15 (quiet looping_database)
            = (Inr (Some (category 15 ''X'' (Some 15))), quiet looping_database)"
    by (simp add: categoryRepository_GetByID_def query_def exec_def quiet_def
        looping_database_def category_def)
  have w: "wouldCreateCircularReference 11 15 (quiet looping_database) = None"
    by (simp add: wouldCreateCircularReference_def g15 self_parent_walk_never_returns)
  have 2: "MoveCategory 11 (Some 15) (quiet looping_database) = None"
    by (simp add: MoveCategory_def g11 g15 w category_def)
  have 3: "checkCategoryCircularReference 11 15 (quiet looping_database)
     = (Some (Errorf ''circular reference detected in existing category hierarchy''),
        quiet looping_database)"
    by (simp add: checkCategoryCircularReference_def checkCategoryCircularReference_loop.simps
        query_def exec_def quiet_def looping_database_def category_def)
  from 1 2 3 show ?thesis by blast
qed

lemmas move_defs =
  MoveCategory_def MoveCategory_update_def wouldCreateCircularReference_def
  categoryRepository_Update_def update_category_def checkCategoryCircularReference_def
  checkCategoryCircularReference_loop.simps categoryRepository_GetByID_def

text \<open>
  The chain \<^verbatim>\<open>A\<close>, \<^verbatim>\<open>B\<close>, \<^verbatim>\<open>C\<close> of the specification: moving \<^verbatim>\<open>A\<close> under \<^verbatim>\<open>C\<close> or under
  itself is rejected, moving it under the unrelated \<^verbatim>\<open>D\<close> succeeds.
\<close>

lemma chain_example:
  "MoveCategory 11 (Some 13) (quiet chain_database)
     = Some (Some ErrInvalidCategoryData, quiet chain_database)
   \<and> MoveCategory 11 (Some 11) (quiet chain_database)
     = Some (Some ErrInvalidCategoryData, quiet chain_database)
   \<and> MoveCategory 11 (Some 14) (quiet chain_database)
     = Some (None, quiet (chain_database\<lparr>categories :=
         [category 11 ''A'' (Some 14), category 12 ''B'' (Some 11), category 13 ''C'' (Some 12),
          category 14 ''D'' None]\<rparr>))"
proof -
  have 1: "MoveCategory 11 (Some 13) (quiet chain_database)
     = Some (Some ErrInvalidCategoryData, quiet chain_database)"
    by (simp add: move_defs ancestorWalk.simps storage_defs concrete_defs chain_database_def
        category_def)
  have 2: "MoveCategory 11 (Some 11) (quiet chain_database)
     = Some (Some ErrInvalidCategoryData, quiet chain_database)"
    by (simp add: move_defs storage_defs concrete_defs chain_database_def category_def)
  have 3: "MoveCategory 11 (Some 14) (quiet chain_database)
     = Some (None, quiet (chain_database\<lparr>categories :=
         [category 11 ''A'' (Some 14), category 12 ''B'' (Some 11), category 13 ''C'' (Some 12),
          category 14 ''D'' None]\<rparr>))"
    by (simp add: move_defs ancestorWalk.simps storage_defs concrete_defs chain_database_def
        category_def)
  from 1 2 3 show ?thesis by blast
qed

subsection \<open>Moves in a hierarchy whose parent chains terminate\<close>

text \<open>One round of the repository's check, and what the check guarantees when it passes.\<close>

lemma check_loop_unfold:
  assumes "checkCategoryCircularReference_loop categoryID current visited w = (r, w')"
    and "current \<noteq> categoryID"
    and "query (\<lambda>d. find (\<lambda>c. Cat_ID c = current) (categories d)) w = (x, w1)"
  shows "(case x of
            Inl e \<Rightarrow> r = Some e \<and> w' = w1
          | Inr None \<Rightarrow> r = None \<and> w' = w1
          | Inr (Some parent) \<Rightarrow>
              (case Cat_ParentID parent of
                 None \<Rightarrow> r = None \<and> w' = w1
               | Some nxt \<Rightarrow>
                   if nxt \<in> insert current visited
                   then r = Some (Errorf ''circular reference detected in existing category hierarchy'')
                        \<and> w' = w1
                   else checkCategoryCircularReference_loop categoryID nxt
                          (insert current visited) w1 = (r, w')))"
  using assms
  by (subst (asm) checkCategoryCircularReference_loop.simps)
     (auto split: sum.splits option.splits)

lemma check_loop_preserves:
  "checkCategoryCircularReference_loop categoryID current visited w = (r, w') \<Longrightarrow> db w' = db w"
proof (induction categoryID current visited w arbitrary: r w'
    rule: checkCategoryCircularReference_loop.induct)
  case (1 categoryID current visited w)
  show ?case
  proof (cases "current = categoryID")
    case True
    with "1.prems" show ?thesis
      by (subst (asm) checkCategoryCircularReference_loop.simps) simp
  next
    case False
    obtain x w1 where q: "query (\<lambda>d. find (\<lambda>c. Cat_ID c = current) (categories d)) w = (x, w1)"
      by (cases "query (\<lambda>d. find (\<lambda>c. Cat_ID c = current) (categories d)) w")
    then have d1: "db w1 = db w" by (auto dest: query_preserves)
    note u = check_loop_unfold [OF "1.prems" False q]
    show ?thesis
    proof (cases x)
      case (Inl e)
      with u d1 show ?thesis by simp
    next
      case (Inr found)
      show ?thesis
      proof (cases found)
        case None
        with u d1 Inr show ?thesis by simp
      next
        case (Some parent)
        note sp = this
        show ?thesis
        proof (cases "Cat_ParentID parent")
          case None
          with u d1 Inr sp show ?thesis by simp
        next
          case (Some nxt)
          show ?thesis
          proof (cases "nxt \<in> insert current visited")
            case True
            with u d1 Inr sp Some show ?thesis by simp
          next
            case nf: False
            from u Inr sp Some nf
            have "checkCategoryCircularReference_loop categoryID nxt (insert current visited) w1
                  = (r, w')" by simp
            from "1.IH" [OF False q [symmetric] _ _ Some nf this] Inr sp
            have "db w' = db w1" by simp
            with d1 show ?thesis by simp
          qed
        qed
      qed
    qed
  qed
qed

lemma ancestor_or_self_cases:
  assumes "ancestor_or_self d i a"
  shows "a = i \<or> (\<exists>c p. category_of d i = Some c \<and> Cat_ParentID c = Some p \<and> ancestor_or_self d p a)"
  using assms by (cases rule: ancestor_or_self.cases) auto

text \<open>When the repository's check passes, the category is not on the chain of the new parent.\<close>

lemma check_loop_sound:
  "checkCategoryCircularReference_loop categoryID current visited w = (None, w')
   \<Longrightarrow> \<not> ancestor_or_self (db w) current categoryID"
proof (induction categoryID current visited w arbitrary: w'
    rule: checkCategoryCircularReference_loop.induct)
  case (1 categoryID current visited w)
  have ne: "current \<noteq> categoryID"
  proof
    assume "current = categoryID"
    with "1.prems" show False
      by (subst (asm) checkCategoryCircularReference_loop.simps) simp
  qed
  obtain x w1 where q: "query (\<lambda>d. find (\<lambda>c. Cat_ID c = current) (categories d)) w = (x, w1)"
    by (cases "query (\<lambda>d. find (\<lambda>c. Cat_ID c = current) (categories d)) w")
  then have d1: "db w1 = db w" by (auto dest: query_preserves)
  note u = check_loop_unfold [OF "1.prems" ne q]
  from u obtain found where x: "x = Inr found"
    by (cases x) auto
  from q x have found: "found = category_of (db w) current"
    by (auto simp: category_of_def dest: query_result)
  show ?case
  proof
    assume "ancestor_or_self (db w) current categoryID"
    with ne obtain c p where c: "category_of (db w) current = Some c"
      and p: "Cat_ParentID c = Some p" and anc: "ancestor_or_self (db w) p categoryID"
      by (auto dest: ancestor_or_self_cases)
    from found c have fc: "found = Some c" by simp
    from u x fc p have nf: "p \<notin> insert current visited"
      by (auto split: if_splits)
    from u x fc p nf
    have "checkCategoryCircularReference_loop categoryID p (insert current visited) w1 = (None, w')"
      by simp
    from "1.IH" [OF ne q [symmetric] _ _ p nf this] x fc
    have "\<not> ancestor_or_self (db w1) p categoryID" by simp
    with d1 anc show False by simp
  qed
qed

lemma find_map_same_id:
  fixes f :: "Category \<Rightarrow> Category"
  assumes "\<And>c. Cat_ID (f c) = Cat_ID c"
  shows "find (\<lambda>c. Cat_ID c = i) (map f cs) = map_option f (find (\<lambda>c. Cat_ID c = i) cs)"
  using assms by (induction cs) auto

lemma find_has_id:
  fixes cs :: "Category list"
  shows "find (\<lambda>c. Cat_ID c = i) cs = Some r \<Longrightarrow> Cat_ID r = i"
  by (induction cs) (auto split: if_splits)

lemma update_category_lookup:
  assumes "update_category c d = Inr d'"
  shows "category_of d' i =
           (if i = Cat_ID c
            then map_option (\<lambda>r. r\<lparr>Cat_Name := Cat_Name c, Cat_ParentID := Cat_ParentID c,
                                     Cat_Type := Cat_Type c\<rparr>) (category_of d i)
            else category_of d i)"
proof -
  define f :: "Category \<Rightarrow> Category" where "f = (\<lambda>r. if Cat_ID r = Cat_ID c
                 then r\<lparr>Cat_Name := Cat_Name c, Cat_ParentID := Cat_ParentID c,
                        Cat_Type := Cat_Type c\<rparr>
                 else r)"
  have fid: "Cat_ID (f r) = Cat_ID r" for r by (simp add: f_def)
  from assms have d': "categories d' = map f (categories d)"
    by (auto simp: update_category_def f_def split: if_splits)
  have lookup: "category_of d' i = map_option f (category_of d i)"
    unfolding category_of_def d' using fid by (rule find_map_same_id)
  show ?thesis
  proof (cases "category_of d i")
    case None
    with lookup show ?thesis by auto
  next
    case (Some r)
    then have "Cat_ID r = i" unfolding category_of_def by (rule find_has_id)
    then have "f r = (if i = Cat_ID c
                      then r\<lparr>Cat_Name := Cat_Name c, Cat_ParentID := Cat_ParentID c,
                             Cat_Type := Cat_Type c\<rparr>
                      else r)"
      by (simp add: f_def)
    with lookup Some show ?thesis by auto
  qed
qed

lemma chain_survives_off_path:
  assumes "chain_terminates d p" and "\<not> ancestor_or_self d p k"
    and "\<And>i. i \<noteq> k \<Longrightarrow> category_of d' i = category_of d i"
  shows "chain_terminates d' p"
  using assms(1,2)
proof (induction rule: chain_terminates.induct)
  case (absent i)
  then have "i \<noteq> k" using ancestor_or_self.self by blast
  with absent assms(3) show ?case by (simp add: chain_terminates.absent)
next
  case (root i c)
  then have "i \<noteq> k" using ancestor_or_self.self by blast
  with root assms(3) show ?case by (simp add: chain_terminates.root)
next
  case (child i c p)
  then have ik: "i \<noteq> k" using ancestor_or_self.self by blast
  have "\<not> ancestor_or_self d p k"
    using child.hyps(1,2) child.prems ancestor_or_self.up by blast
  then have "chain_terminates d' p" by (rule child.IH)
  with ik child.hyps assms(3) show ?case by (auto intro: chain_terminates.child)
qed

lemma chains_survive_reparenting:
  assumes "\<And>i. chain_terminates d i" and "chain_terminates d' k"
    and "\<And>i. i \<noteq> k \<Longrightarrow> category_of d' i = category_of d i"
  shows "chain_terminates d' i"
proof -
  have "chain_terminates d i" by (rule assms(1))
  then show ?thesis
  proof (induction rule: chain_terminates.induct)
    case (absent i)
    show ?case
    proof (cases "i = k")
      case True with assms(2) show ?thesis by simp
    next
      case False with absent assms(3) show ?thesis by (simp add: chain_terminates.absent)
    qed
  next
    case (root i c)
    show ?case
    proof (cases "i = k")
      case True with assms(2) show ?thesis by simp
    next
      case False with root assms(3) show ?thesis by (simp add: chain_terminates.root)
    qed
  next
    case (child i c p)
    show ?case
    proof (cases "i = k")
      case True with assms(2) show ?thesis by simp
    next
      case False with child assms(3) show ?thesis by (auto intro: chain_terminates.child)
    qed
  qed
qed


lemma ancestorWalk_preserves:
  assumes "ancestorWalk categoryID current w = Some r"
  shows "db (snd r) = db w"
proof (rule ancestorWalk.raw_induct
    [where P = "\<lambda>categoryID current w r. db (snd r) = db w", OF _ assms])
  fix walk :: "uuid \<Rightarrow> Category \<Rightarrow> world \<Rightarrow> (bool \<times> world) option"
  fix categoryID :: uuid and current :: Category and w :: world and r :: "bool \<times> world"
  assume IH: "\<And>categoryID current w r. walk categoryID current w = Some r \<Longrightarrow> db (snd r) = db w"
  assume step: "(case Cat_ParentID current of
                   None \<Rightarrow> Some (False, w)
                 | Some parentID \<Rightarrow>
                     if parentID = categoryID then Some (True, w)
                     else (case categoryRepository_GetByID parentID w of
                             (Inl e, w1) \<Rightarrow> Some (False, w1)
                           | (Inr None, w1) \<Rightarrow> Some (False, w1)
                           | (Inr (Some nxt), w1) \<Rightarrow> walk categoryID nxt w1)) = Some r"
  show "db (snd r) = db w"
  proof (cases "Cat_ParentID current")
    case None
    with step show ?thesis by auto
  next
    case (Some parentID)
    show ?thesis
    proof (cases "parentID = categoryID")
      case True
      with step Some show ?thesis by auto
    next
      case False
      obtain x w1 where g: "categoryRepository_GetByID parentID w = (x, w1)"
        by (cases "categoryRepository_GetByID parentID w")
      then have d1: "db w1 = db w" by (rule categoryRepository_GetByID_preserves)
      show ?thesis
      proof (cases x)
        case (Inl e)
        with step Some False g d1 show ?thesis by auto
      next
        case (Inr found)
        show ?thesis
        proof (cases found)
          case None
          with step Some False g d1 Inr show ?thesis by auto
        next
          case (Some nxt)
          with step \<open>Cat_ParentID current = Some parentID\<close> False g Inr
          have "walk categoryID nxt w1 = Some r" by simp
          from IH [OF this] d1 show ?thesis by simp
        qed
      qed
    qed
  qed
qed

lemma wouldCreateCircularReference_preserves:
  assumes "wouldCreateCircularReference categoryID newParentID w = Some r"
  shows "db (snd r) = db w"
proof (cases "categoryID = newParentID")
  case True
  with assms show ?thesis by (auto simp: wouldCreateCircularReference_def)
next
  case False
  obtain x w1 where g: "categoryRepository_GetByID newParentID w = (x, w1)"
    by (cases "categoryRepository_GetByID newParentID w")
  then have d1: "db w1 = db w" by (rule categoryRepository_GetByID_preserves)
  show ?thesis
  proof (cases x)
    case (Inl e)
    with assms False g d1 show ?thesis by (auto simp: wouldCreateCircularReference_def)
  next
    case (Inr found)
    show ?thesis
    proof (cases found)
      case None
      with assms False g d1 Inr show ?thesis by (auto simp: wouldCreateCircularReference_def)
    next
      case (Some parent)
      with assms False g Inr have "ancestorWalk categoryID parent w1 = Some r"
        by (simp add: wouldCreateCircularReference_def)
      from ancestorWalk_preserves [OF this] d1 show ?thesis by simp
    qed
  qed
qed

lemma categoryRepository_Update_error:
  assumes "categoryRepository_Update c w = (Some e, w')"
  shows "db w' = db w"
proof (cases "Cat_ParentID c")
  case None
  with assms show ?thesis
    by (auto simp: categoryRepository_Update_def dest: statement_error)
next
  case (Some parentID)
  obtain x w1 where q: "query (\<lambda>d. find (\<lambda>p. Cat_ID p = parentID) (categories d)) w = (x, w1)"
    by (cases "query (\<lambda>d. find (\<lambda>p. Cat_ID p = parentID) (categories d)) w")
  then have d1: "db w1 = db w" by (auto dest: query_preserves)
  obtain r2 w2 where ch: "checkCategoryCircularReference (Cat_ID c) parentID w1 = (r2, w2)"
    by (cases "checkCategoryCircularReference (Cat_ID c) parentID w1")
  then have d2: "db w2 = db w1"
    unfolding checkCategoryCircularReference_def by (rule check_loop_preserves)
  from assms Some q ch d1 d2 show ?thesis
    by (auto simp: categoryRepository_Update_def
        split: sum.splits option.splits if_splits dest: statement_error)
qed

lemma categoryRepository_Update_success:
  assumes "categoryRepository_Update c w = (None, w')"
  shows "update_category c (db w) = Inr (db w')
       \<and> (\<forall>p. Cat_ParentID c = Some p \<longrightarrow> \<not> ancestor_or_self (db w) p (Cat_ID c))"
proof (cases "Cat_ParentID c")
  case None
  with assms show ?thesis
    by (auto simp: categoryRepository_Update_def dest: statement_success)
next
  case (Some parentID)
  obtain x w1 where q: "query (\<lambda>d. find (\<lambda>p. Cat_ID p = parentID) (categories d)) w = (x, w1)"
    by (cases "query (\<lambda>d. find (\<lambda>p. Cat_ID p = parentID) (categories d)) w")
  then have d1: "db w1 = db w" by (auto dest: query_preserves)
  obtain r2 w2 where ch: "checkCategoryCircularReference (Cat_ID c) parentID w1 = (r2, w2)"
    by (cases "checkCategoryCircularReference (Cat_ID c) parentID w1")
  then have d2: "db w2 = db w1"
    unfolding checkCategoryCircularReference_def by (rule check_loop_preserves)
  from assms Some q ch have r2: "r2 = None" and st: "statement (update_category c) w2 = (None, w')"
    by (auto simp: categoryRepository_Update_def split: sum.splits option.splits if_splits)
  from ch r2 have "\<not> ancestor_or_self (db w1) parentID (Cat_ID c)"
    unfolding checkCategoryCircularReference_def by (auto dest: check_loop_sound)
  with st d1 d2 Some show ?thesis by (auto dest: statement_success)
qed


lemma MoveCategory_update_result:
  assumes "MoveCategory_update cat newParentID w = (r, w')"
  shows "(r \<noteq> None \<longrightarrow> db w' = db w)
       \<and> (r = None \<longrightarrow>
            update_category (cat\<lparr>Cat_ParentID := newParentID\<rparr>) (db w) = Inr (db w')
            \<and> (\<forall>p. newParentID = Some p \<longrightarrow> \<not> ancestor_or_self (db w) p (Cat_ID cat)))"
proof -
  obtain r1 w1 where u: "categoryRepository_Update (cat\<lparr>Cat_ParentID := newParentID\<rparr>) w
                          = (r1, w1)"
    by (cases "categoryRepository_Update (cat\<lparr>Cat_ParentID := newParentID\<rparr>) w")
  show ?thesis
  proof (cases r1)
    case None
    with assms u have "r = None" "w' = w1" by (auto simp: MoveCategory_update_def)
    with u None categoryRepository_Update_success [of "cat\<lparr>Cat_ParentID := newParentID\<rparr>" w w1]
    show ?thesis by auto
  next
    case (Some e)
    with assms u have "r \<noteq> None" "w' = w1" by (auto simp: MoveCategory_update_def)
    with u Some categoryRepository_Update_error [of "cat\<lparr>Cat_ParentID := newParentID\<rparr>" w e w1]
    show ?thesis by auto
  qed
qed

text \<open>
  A move that reports an error has written nothing; a move that succeeds has written the new
  parent into the row of the category, and the category is not on the chain of that parent.
\<close>

lemma MoveCategory_result:
  assumes "MoveCategory categoryID newParentID w = Some (r, w')"
  shows "(r \<noteq> None \<longrightarrow> db w' = db w)
       \<and> (r = None \<longrightarrow>
            (\<exists>cat. category_of (db w) categoryID = Some cat
               \<and> update_category (cat\<lparr>Cat_ParentID := newParentID\<rparr>) (db w) = Inr (db w')
               \<and> (\<forall>p. newParentID = Some p \<longrightarrow> \<not> ancestor_or_self (db w) p categoryID)))"
proof -
  obtain x w1 where g: "categoryRepository_GetByID categoryID w = (x, w1)"
    by (cases "categoryRepository_GetByID categoryID w")
  then have d1: "db w1 = db w" by (rule categoryRepository_GetByID_preserves)
  show ?thesis
  proof (cases x)
    case (Inl e)
    with assms g d1 show ?thesis by (auto simp: MoveCategory_def)
  next
    case (Inr found)
    show ?thesis
    proof (cases found)
      case None
      with assms g d1 Inr show ?thesis by (auto simp: MoveCategory_def)
    next
      case (Some cat)
      with g Inr have co: "category_of (db w) categoryID = Some cat"
        by (auto simp: category_of_def categoryRepository_GetByID_def dest: query_result)
      then have cid: "Cat_ID cat = categoryID"
        unfolding category_of_def by (rule find_has_id)
      have fin: ?thesis if "MoveCategory_update cat newParentID wk = (r, w')"
        and "db wk = db w" for wk
        using MoveCategory_update_result [OF that(1)] that(2) co cid by auto
      show ?thesis
      proof (cases newParentID)
        case None
        with assms g Inr Some have "MoveCategory_update cat newParentID w1 = (r, w')"
          by (simp add: MoveCategory_def)
        from fin [OF this d1] show ?thesis .
      next
        case (Some parentID)
        note np = this
        obtain y w2 where g2: "categoryRepository_GetByID parentID w1 = (y, w2)"
          by (cases "categoryRepository_GetByID parentID w1")
        then have d2: "db w2 = db w" using d1 by (auto dest: categoryRepository_GetByID_preserves)
        show ?thesis
        proof (cases y)
          case (Inl e)
          with assms g Inr \<open>found = Some cat\<close> np g2 d2 show ?thesis
            by (auto simp: MoveCategory_def)
        next
          case (Inr pfound)
          note y = this
          show ?thesis
          proof (cases pfound)
            case None
            with assms g \<open>x = Inr found\<close> \<open>found = Some cat\<close> np g2 d2 y show ?thesis
              by (auto simp: MoveCategory_def)
          next
            case (Some parent)
            note pf = this
            show ?thesis
            proof (cases "Cat_UserID parent \<noteq> Cat_UserID cat")
              case True
              with assms g \<open>x = Inr found\<close> \<open>found = Some cat\<close> np g2 d2 y pf show ?thesis
                by (auto simp: MoveCategory_def)
            next
              case False
              with assms g \<open>x = Inr found\<close> \<open>found = Some cat\<close> np g2 y pf
              obtain b w3 where wc: "wouldCreateCircularReference categoryID parentID w2 = Some (b, w3)"
                and rest: "(if b then Some (Some ErrInvalidCategoryData, w3)
                            else Some (MoveCategory_update cat newParentID w3)) = Some (r, w')"
                by (auto simp: MoveCategory_def split: option.splits bool.splits)
              from wouldCreateCircularReference_preserves [OF wc] d2 have d3: "db w3 = db w" by simp
              show ?thesis
              proof (cases b)
                case True
                with rest d3 show ?thesis by auto
              next
                case False
                with rest have "MoveCategory_update cat newParentID w3 = (r, w')" by simp
                from fin [OF this d3] show ?thesis .
              qed
            qed
          qed
        qed
      qed
    qed
  qed
qed

text \<open>
  The invariant: where every parent chain terminates before a move, every parent chain
  terminates after it.
\<close>

lemma MoveCategory_keeps_chains_terminating:
  assumes wf: "\<And>i. chain_terminates (db w) i"
    and mv: "MoveCategory categoryID newParentID w = Some (r, w')"
  shows "chain_terminates (db w') i"
proof (cases r)
  case (Some e)
  with MoveCategory_result [OF mv] have "db w' = db w" by simp
  with wf show ?thesis by simp
next
  case None
  with MoveCategory_result [OF mv] obtain cat where
    co: "category_of (db w) categoryID = Some cat"
    and up: "update_category (cat\<lparr>Cat_ParentID := newParentID\<rparr>) (db w) = Inr (db w')"
    and off: "\<And>p. newParentID = Some p \<Longrightarrow> \<not> ancestor_or_self (db w) p categoryID"
    by blast
  from co have cid: "Cat_ID cat = categoryID"
    unfolding category_of_def by (rule find_has_id)
  have other: "category_of (db w') j = category_of (db w) j" if "j \<noteq> categoryID" for j
    using update_category_lookup [OF up, of j] that cid by simp
  have moved: "\<exists>c. category_of (db w') categoryID = Some c \<and> Cat_ParentID c = newParentID"
    using update_category_lookup [OF up, of categoryID] cid co by simp
  then obtain c where c: "category_of (db w') categoryID = Some c" "Cat_ParentID c = newParentID"
    by blast
  have k: "chain_terminates (db w') categoryID"
  proof (cases newParentID)
    case None
    with c show ?thesis by (auto intro: chain_terminates.root)
  next
    case (Some p)
    have "chain_terminates (db w') p"
      using wf off [OF Some] other by (rule chain_survives_off_path)
    with c Some show ?thesis by (auto intro: chain_terminates.child)
  qed
  show ?thesis
    using wf k other by (rule chains_survive_reparenting)
qed


text \<open>Where every parent chain terminates, the walk of the service and with it the move return.\<close>

lemma GetByID_cases:
  assumes "categoryRepository_GetByID i w = (x, w1)"
  shows "db w1 = db w \<and> ((\<exists>e. x = Inl e) \<or> x = Inr (category_of (db w) i))"
  using assms
  by (auto simp: categoryRepository_GetByID_def query_def category_of_def
      split: prod.splits if_splits dest: exec_preserves)

lemma ancestorWalk_returns:
  assumes "chain_terminates d p"
  shows "db w = d \<Longrightarrow> Cat_ParentID current = Some p
         \<Longrightarrow> \<exists>r. ancestorWalk categoryID current w = Some r"
  using assms
proof (induction arbitrary: current w rule: chain_terminates.induct)
  case (absent i)
  obtain x w1 where g: "categoryRepository_GetByID i w = (x, w1)"
    by (cases "categoryRepository_GetByID i w")
  from GetByID_cases [OF g] absent have "(\<exists>e. x = Inl e) \<or> x = Inr None" by auto
  with g absent show ?case
    by (subst ancestorWalk.simps) auto
next
  case (root i c)
  obtain x w1 where g: "categoryRepository_GetByID i w = (x, w1)"
    by (cases "categoryRepository_GetByID i w")
  from GetByID_cases [OF g] root have x: "(\<exists>e. x = Inl e) \<or> x = Inr (Some c)" by auto
  have "ancestorWalk categoryID c w1 = Some (False, w1)"
    using root by (subst ancestorWalk.simps) simp
  with g root x show ?case
    by (subst ancestorWalk.simps) auto
next
  case (child i c p)
  obtain x w1 where g: "categoryRepository_GetByID i w = (x, w1)"
    by (cases "categoryRepository_GetByID i w")
  from GetByID_cases [OF g] child have x: "(\<exists>e. x = Inl e) \<or> x = Inr (Some c)"
    and d1: "db w1 = d" by auto
  from child.IH [OF d1 child.hyps(2)] obtain r where
    "ancestorWalk categoryID c w1 = Some r" by blast
  with g child x show ?case
    by (subst ancestorWalk.simps) auto
qed

lemma wouldCreateCircularReference_returns:
  assumes "\<And>i. chain_terminates (db w) i"
  shows "\<exists>r. wouldCreateCircularReference categoryID newParentID w = Some r"
proof (cases "categoryID = newParentID")
  case True
  then have "wouldCreateCircularReference categoryID newParentID w = Some (True, w)"
    by (simp add: wouldCreateCircularReference_def)
  then show ?thesis by blast
next
  case False
  obtain x w1 where g: "categoryRepository_GetByID newParentID w = (x, w1)"
    by (cases "categoryRepository_GetByID newParentID w")
  then have d1: "db w1 = db w" by (rule categoryRepository_GetByID_preserves)
  show ?thesis
  proof (cases x)
    case (Inl e)
    with False g have "wouldCreateCircularReference categoryID newParentID w = Some (False, w1)"
      by (simp add: wouldCreateCircularReference_def)
    then show ?thesis by blast
  next
    case (Inr found)
    show ?thesis
    proof (cases found)
      case None
      with False g Inr
      have "wouldCreateCircularReference categoryID newParentID w = Some (False, w1)"
        by (simp add: wouldCreateCircularReference_def)
      then show ?thesis by blast
    next
      case (Some parent)
      have "\<exists>r. ancestorWalk categoryID parent w1 = Some r"
      proof (cases "Cat_ParentID parent")
        case None
        then have "ancestorWalk categoryID parent w1 = Some (False, w1)"
          by (subst ancestorWalk.simps) simp
        then show ?thesis by blast
      next
        case (Some p)
        from ancestorWalk_returns [OF assms [of p] d1 Some] show ?thesis .
      qed
      then obtain r where "ancestorWalk categoryID parent w1 = Some r" by blast
      with False g Inr Some
      have "wouldCreateCircularReference categoryID newParentID w = Some r"
        by (simp add: wouldCreateCircularReference_def)
      then show ?thesis by blast
    qed
  qed
qed

lemma MoveCategory_returns:
  assumes "\<And>i. chain_terminates (db w) i"
  shows "\<exists>res. MoveCategory categoryID newParentID w = Some res"
proof -
  obtain x w1 where g: "categoryRepository_GetByID categoryID w = (x, w1)"
    by (cases "categoryRepository_GetByID categoryID w")
  then have d1: "db w1 = db w" by (rule categoryRepository_GetByID_preserves)
  show ?thesis
  proof (cases x)
    case (Inl e)
    with g show ?thesis by (simp add: MoveCategory_def)
  next
    case (Inr found)
    note x = this
    show ?thesis
    proof (cases found)
      case None
      with g x show ?thesis by (simp add: MoveCategory_def)
    next
      case (Some cat)
      note fnd = this
      show ?thesis
      proof (cases newParentID)
        case None
        with g x fnd show ?thesis by (simp add: MoveCategory_def)
      next
        case (Some parentID)
        note np = this
        obtain y w2 where g2: "categoryRepository_GetByID parentID w1 = (y, w2)"
          by (cases "categoryRepository_GetByID parentID w1")
        then have d2: "db w2 = db w" using d1 by (auto dest: categoryRepository_GetByID_preserves)
        show ?thesis
        proof (cases y)
          case (Inl e)
          with g x fnd np g2 show ?thesis by (simp add: MoveCategory_def)
        next
          case (Inr pfound)
          note y = this
          show ?thesis
          proof (cases pfound)
            case None
            with g x fnd np g2 y show ?thesis by (simp add: MoveCategory_def)
          next
            case (Some parent)
            have "\<And>i. chain_terminates (db w2) i" using assms d2 by simp
            from wouldCreateCircularReference_returns [OF this, of categoryID parentID]
            obtain b w3 where "wouldCreateCircularReference categoryID parentID w2 = Some (b, w3)"
              by auto
            with g x fnd np g2 y Some show ?thesis
              by (cases b) (simp_all add: MoveCategory_def)
          qed
        qed
      qed
    qed
  qed
qed


text \<open>
  Without storage failures, a move under the category itself or under one of its descendants
  is rejected with \<^verbatim>\<open>ErrInvalidCategoryData\<close>; the walk reaches the category after finitely
  many steps, whatever the rest of the hierarchy looks like.
\<close>

lemma GetByID_no_fault:
  "faults w = [] \<Longrightarrow> categoryRepository_GetByID i w = (Inr (category_of (db w) i), w)"
  by (simp add: categoryRepository_GetByID_def category_of_def query_no_fault)

lemma ancestorWalk_finds:
  assumes "ancestor_or_self d p categoryID"
  shows "p \<noteq> categoryID \<Longrightarrow> faults w = [] \<Longrightarrow> db w = d \<Longrightarrow> category_of d p = Some parent
         \<Longrightarrow> ancestorWalk categoryID parent w = Some (True, w)"
  using assms
proof (induction arbitrary: parent rule: ancestor_or_self.induct)
  case (self i)
  then show ?case by simp
next
  case (up i c q a)
  from up.prems up.hyps have pc: "parent = c" by simp
  show ?case
  proof (cases "q = a")
    case True
    with pc up.hyps show ?thesis by (subst ancestorWalk.simps) simp
  next
    case False
    with up.hyps(3) obtain c' where c': "category_of d q = Some c'"
      by (auto dest: ancestor_or_self_cases)
    from up.IH [OF False up.prems(2,3) c'] have "ancestorWalk a c' w = Some (True, w)" .
    with pc up.hyps False c' up.prems show ?thesis
      by (subst ancestorWalk.simps) (simp add: GetByID_no_fault)
  qed
qed

lemma MoveCategory_rejects_descendant:
  assumes "faults w = []"
    and "category_of (db w) categoryID = Some cat"
    and "category_of (db w) parentID = Some parent"
    and "Cat_UserID parent = Cat_UserID cat"
    and "ancestor_or_self (db w) parentID categoryID"
  shows "MoveCategory categoryID (Some parentID) w = Some (Some ErrInvalidCategoryData, w)"
proof -
  have "wouldCreateCircularReference categoryID parentID w = Some (True, w)"
  proof (cases "categoryID = parentID")
    case True
    then show ?thesis by (simp add: wouldCreateCircularReference_def)
  next
    case False
    then have "parentID \<noteq> categoryID" by simp
    from ancestorWalk_finds [OF assms(5) this assms(1) refl assms(3)] False assms(1,3)
    show ?thesis by (simp add: wouldCreateCircularReference_def GetByID_no_fault)
  qed
  with assms show ?thesis
    by (simp add: MoveCategory_def GetByID_no_fault)
qed

end
